theory Spec2Isabelle
  imports Main
begin

section \<open>JSON values as the Python code sees them\<close>

text \<open>
  Both websockets carry JSON text. \<^verbatim>\<open>json.loads\<close> turns a text frame into a Python value
  (\<^verbatim>\<open>None\<close>, a bool, a number, a \<^verbatim>\<open>str\<close>, a \<^verbatim>\<open>list\<close> or a \<^verbatim>\<open>dict\<close>) or raises;
  \<^verbatim>\<open>json.dumps\<close> turns a payload back into text. A frame is identified with the value it
  encodes. A \<^verbatim>\<open>dict\<close> is an association list read with \<open>map_of\<close>. The program tests numbers
  for truthiness only, so they are integers here.
\<close>

datatype json =
    JNull
  | JBool bool
  | JNum int
  | JStr string
  | JArr "json list"
  | JObj "(string \<times> json) list"

datatype error =
    NotConnected
  | AttributeError
  | TypeError
  | JSONDecodeError
  | ConnectionClosedError
  | HandshakeFailed

text \<open>Python truthiness (\<^verbatim>\<open>if not x\<close>) and \<^verbatim>\<open>a or b\<close>.\<close>

fun truthy :: "json \<Rightarrow> bool" where
  "truthy JNull = False"
| "truthy (JBool b) = b"
| "truthy (JNum n) = (n \<noteq> 0)"
| "truthy (JStr s) = (s \<noteq> [])"
| "truthy (JArr xs) = (xs \<noteq> [])"
| "truthy (JObj kvs) = (kvs \<noteq> [])"

definition py_or :: "json \<Rightarrow> json \<Rightarrow> json" where
  "py_or a b = (if truthy a then a else b)"

text \<open>\<^verbatim>\<open>d.get(k)\<close> on a \<^verbatim>\<open>dict\<close>; \<^verbatim>\<open>None\<close> is \<open>JNull\<close>.\<close>

definition lookup :: "(string \<times> json) list \<Rightarrow> string \<Rightarrow> json" where
  "lookup kvs k = (case map_of kvs k of None \<Rightarrow> JNull | Some v \<Rightarrow> v)"

text \<open>\<^verbatim>\<open>x.get(k)\<close> on any decoded value: only a \<^verbatim>\<open>dict\<close> has the method.\<close>

fun dict_get :: "string \<Rightarrow> json \<Rightarrow> error + json" where
  "dict_get k (JObj kvs) = Inr (lookup kvs k)"
| "dict_get k _ = Inl AttributeError"

text \<open>\<^verbatim>\<open>d.get(k1) or d.get(k2)\<close> on a \<^verbatim>\<open>dict\<close>.\<close>

definition get_or :: "string \<Rightarrow> string \<Rightarrow> (string \<times> json) list \<Rightarrow> json" where
  "get_or k1 k2 kvs = py_or (lookup kvs k1) (lookup kvs k2)"

text \<open>A \<^verbatim>\<open>list\<close> or \<^verbatim>\<open>dict\<close> cannot be looked up in a \<^verbatim>\<open>set\<close>: \<^verbatim>\<open>x in {...}\<close> raises.\<close>

fun hashable :: "json \<Rightarrow> bool" where
  "hashable (JArr xs) = False"
| "hashable (JObj kvs) = False"
| "hashable j = True"

text \<open>A text frame either decodes or makes \<^verbatim>\<open>json.loads\<close> raise.\<close>

datatype text_frame = Json json | NotJson

fun json_loads :: "text_frame \<Rightarrow> error + json" where
  "json_loads (Json j) = Inr j"
| "json_loads NotJson = Inl JSONDecodeError"

section \<open>The realtime client (\<^verbatim>\<open>openai_client.py\<close>)\<close>

record config =
  api_key :: string
  model :: string
  voice :: string
  instructions :: "string option"

text \<open>
  The state of a websocket of the \<^verbatim>\<open>websockets\<close> library, as far as the client can see
  it. Its \<^verbatim>\<open>closed\<close> property is true in state \<open>CLOSED\<close> only; \<^verbatim>\<open>send\<close> goes through in
  state \<open>OPEN\<close> only, and raises \<^verbatim>\<open>ConnectionClosed\<close> in the other two. A websocket is
  \<open>CLOSING\<close> from the moment a close frame has been received or sent until the
  connection is gone.
\<close>

datatype ws_state = OPEN | CLOSING | CLOSED

text \<open>
  \<open>connection\<close> is \<^verbatim>\<open>self._connection\<close>: \<open>None\<close>, or the websocket in its current state.
  \<open>sent\<close> lists the payloads that \<^verbatim>\<open>connection.send\<close> has taken, oldest first, and
  \<open>close_calls\<close> counts the calls of \<^verbatim>\<open>connection.close()\<close>: the two record what the client
  does to the underlying websocket.
\<close>

record client =
  config :: config
  connection :: "ws_state option"
  sent :: "json list"
  close_calls :: nat

text \<open>\<^verbatim>\<open>OpenAIConfig\<close> with the defaults of \<^verbatim>\<open>config.py\<close>.\<close>

definition default_config :: "string \<Rightarrow> config" where
  "default_config key =
     \<lparr>api_key = key, model = ''gpt-4o-realtime-mini'', voice = ''verse'', instructions = None\<rparr>"

definition new_client :: "config \<Rightarrow> client" where
  "new_client cfg = \<lparr>config = cfg, connection = None, sent = [], close_calls = 0\<rparr>"

definition is_connected :: "client \<Rightarrow> bool" where
  "is_connected c = (case connection c of None \<Rightarrow> False | Some st \<Rightarrow> st \<noteq> CLOSED)"

text \<open>
  \<^verbatim>\<open>send_json\<close>: the guard raises \<^verbatim>\<open>RuntimeError\<close> on a client that is not connected; past
  the guard, \<^verbatim>\<open>connection.send\<close> raises on a websocket that is no longer open.
\<close>

definition send_json :: "json \<Rightarrow> client \<Rightarrow> (error + unit) \<times> client" where
  "send_json payload c =
     (if \<not> is_connected c then (Inl NotConnected, c)
      else if connection c = Some OPEN then (Inr (), c\<lparr>sent := sent c @ [payload]\<rparr>)
      else (Inl ConnectionClosedError, c))"

definition session_update :: "config \<Rightarrow> json" where
  "session_update cfg =
     JObj [(''type'', JStr ''session.update''),
           (''session'', JObj ([(''voice'', JStr (voice cfg))] @
              (case instructions cfg of
                 None \<Rightarrow> []
               | Some i \<Rightarrow> if i \<noteq> [] then [(''instructions'', JStr i)] else [])))]"

text \<open>\<open>handshake_ok\<close> says whether \<^verbatim>\<open>websockets.connect\<close> succeeds.\<close>

definition connect :: "bool \<Rightarrow> client \<Rightarrow> (error + unit) \<times> client" where
  "connect handshake_ok c =
     (if is_connected c then (Inr (), c)
      else if \<not> handshake_ok then (Inl HandshakeFailed, c)
      else send_json (session_update (config c)) (c\<lparr>connection := Some OPEN\<rparr>))"

definition close :: "client \<Rightarrow> (error + unit) \<times> client" where
  "close c =
     (Inr (),
      (if is_connected c then c\<lparr>close_calls := Suc (close_calls c)\<rparr> else c)
        \<lparr>connection := None\<rparr>)"

definition append_message :: "json \<Rightarrow> json" where
  "append_message audio_base64 =
     JObj [(''type'', JStr ''input_audio_buffer.append''), (''audio'', audio_base64)]"

definition commit_message :: json where
  "commit_message = JObj [(''type'', JStr ''input_audio_buffer.commit'')]"

definition response_create_message :: json where
  "response_create_message = JObj [(''type'', JStr ''response.create''), (''response'', JObj [])]"

definition send_audio_chunk :: "json \<Rightarrow> bool \<Rightarrow> client \<Rightarrow> (error + unit) \<times> client" where
  "send_audio_chunk audio_base64 end_of_input c =
     (case send_json (append_message audio_base64) c of
        (Inl e, c1) \<Rightarrow> (Inl e, c1)
      | (Inr u, c1) \<Rightarrow>
          if end_of_input then
            (case send_json commit_message c1 of
               (Inl e, c2) \<Rightarrow> (Inl e, c2)
             | (Inr u, c2) \<Rightarrow> send_json response_create_message c2)
          else (Inr (), c1))"

text \<open>
  \<^verbatim>\<open>responses()\<close> is an async generator. \<open>responses\<close> is one \<^verbatim>\<open>__anext__\<close> of it: from the
  generator's state, the client, the messages the connection has received and not yet
  handed out, and how the connection ended (\<open>None\<close>: still open; \<open>Some True\<close>: closed
  normally; \<open>Some False\<close>: lost), it yields an event, stops, raises, or stays suspended.
\<close>

datatype gen = NotStarted | Streaming | Exhausted

datatype anext = Yield json | StopIteration | Raise error | Suspended

definition responses ::
  "client \<Rightarrow> gen \<Rightarrow> text_frame list \<Rightarrow> bool option \<Rightarrow> anext \<times> gen \<times> text_frame list" where
  "responses c g inbox ended =
     (if g = Exhausted then (StopIteration, Exhausted, inbox)
      else if g = NotStarted \<and> \<not> is_connected c then (Raise NotConnected, Exhausted, inbox)
      else
        (case inbox of
           message # rest \<Rightarrow>
             (case json_loads message of
                Inl e \<Rightarrow> (Raise e, Exhausted, rest)
              | Inr event \<Rightarrow> (Yield event, Streaming, rest))
         | [] \<Rightarrow>
             (case ended of
                None \<Rightarrow> (Suspended, Streaming, [])
              | Some True \<Rightarrow> (StopIteration, Exhausted, [])
              | Some False \<Rightarrow> (Raise ConnectionClosedError, Exhausted, []))))"

section \<open>The bridge (\<^verbatim>\<open>signalwire_bridge.py\<close>)\<close>

text \<open>
  \<open>stream_id\<close> is \<^verbatim>\<open>self._stream_id\<close> (\<open>JNull\<close> for \<^verbatim>\<open>None\<close>), \<open>ready\<close> the
  \<^verbatim>\<open>asyncio.Event\<close>. \<open>sw_sent\<close> lists the payloads handed to \<^verbatim>\<open>websocket.send_text\<close>, oldest
  first. The telephony websocket is taken to accept every send.
\<close>

record bridge =
  openai_client :: client
  stream_id :: json
  ready :: bool
  accepted :: bool
  sw_sent :: "json list"

definition new_bridge :: "config \<Rightarrow> bridge" where
  "new_bridge cfg =
     \<lparr>openai_client = new_client cfg, stream_id = JNull, ready = False,
      accepted = False, sw_sent = []\<rparr>"

definition send_signalwire :: "json \<Rightarrow> bridge \<Rightarrow> (error + unit) \<times> bridge" where
  "send_signalwire payload b = (Inr (), b\<lparr>sw_sent := sw_sent b @ [payload]\<rparr>)"

definition ready_frame :: json where
  "ready_frame = JObj [(''event'', JStr ''ready'')]"

text \<open>
  \<^verbatim>\<open>_on_start\<close> and \<^verbatim>\<open>_on_media\<close> take a \<^verbatim>\<open>Dict\<close>: the inbound loop reaches them only
  after \<^verbatim>\<open>payload.get\<close> has worked.
\<close>

definition on_start :: "(string \<times> json) list \<Rightarrow> bridge \<Rightarrow> (error + unit) \<times> bridge" where
  "on_start payload b =
     (let sid = get_or ''streamId'' ''stream_id'' payload in
      if \<not> truthy sid then (Inr (), b)
      else
        (case send_signalwire ready_frame (b\<lparr>stream_id := sid\<rparr>) of
           (Inl e, b1) \<Rightarrow> (Inl e, b1)
         | (Inr u, b1) \<Rightarrow> (Inr (), b1\<lparr>ready := True\<rparr>)))"

text \<open>Runs a client operation on the bridge's client.\<close>

definition with_client ::
  "(client \<Rightarrow> (error + unit) \<times> client) \<Rightarrow> bridge \<Rightarrow> (error + unit) \<times> bridge" where
  "with_client f b = (case f (openai_client b) of (r, c) \<Rightarrow> (r, b\<lparr>openai_client := c\<rparr>))"

definition on_media :: "(string \<times> json) list \<Rightarrow> bridge \<Rightarrow> (error + unit) \<times> bridge" where
  "on_media payload b =
     (case map_of payload ''media'' of
        None \<Rightarrow> (Inr (), b)
      | Some media \<Rightarrow>
          (case dict_get ''payload'' media of
             Inl e \<Rightarrow> (Inl e, b)
           | Inr audio_payload \<Rightarrow>
               if \<not> truthy audio_payload then (Inr (), b)
               else with_client (send_audio_chunk audio_payload False) b))"

text \<open>
  What \<^verbatim>\<open>receive_text\<close> hands to the inbound loop: a text frame, or
  \<^verbatim>\<open>WebSocketDisconnect\<close>.
\<close>

datatype rx = Frame text_frame | Disconnect

datatype ctl = Continue | Break

definition continue_after :: "(error + unit) \<times> bridge \<Rightarrow> (error + ctl) \<times> bridge" where
  "continue_after r =
     (case r of (Inl e, b) \<Rightarrow> (Inl e, b) | (Inr u, b) \<Rightarrow> (Inr Continue, b))"

text \<open>One pass through the body of \<^verbatim>\<open>while True\<close> in \<^verbatim>\<open>_receive_from_signalwire\<close>.\<close>

definition receive_iteration :: "rx \<Rightarrow> bridge \<Rightarrow> (error + ctl) \<times> bridge" where
  "receive_iteration r b =
     (case r of
        Disconnect \<Rightarrow> (Inr Break, b)
      | Frame message \<Rightarrow>
          (case json_loads message of
             Inl e \<Rightarrow> (Inl e, b)
           | Inr decoded \<Rightarrow>
               (case decoded of
                  JObj payload \<Rightarrow>
                    let event_type = get_or ''event'' ''type'' payload in
                    if event_type = JStr ''start'' then
                      continue_after
                        (on_start payload
                           (b\<lparr>stream_id := get_or ''streamId'' ''stream_id'' payload\<rparr>))
                    else if event_type = JStr ''media'' then
                      continue_after (on_media payload b)
                    else if \<not> hashable event_type then (Inl TypeError, b)
                    else if event_type \<in> {JStr ''mark'', JStr ''connected''} then
                      (Inr Continue, b)
                    else if event_type \<in> {JStr ''stop'', JStr ''close''} then
                      (case with_client (send_json commit_message) b of
                         (Inl e, b1) \<Rightarrow> (Inl e, b1)
                       | (Inr u, b1) \<Rightarrow>
                           (case with_client (send_json response_create_message) b1 of
                              (Inl e, b2) \<Rightarrow> (Inl e, b2)
                            | (Inr u, b2) \<Rightarrow> (Inr Break, b2)))
                    else (Inr Continue, b)
                | _ \<Rightarrow> (Inl AttributeError, b))))"

text \<open>
  The inbound loop over the frames the telephony peer delivers. It returns how the loop
  ended (\<open>None\<close>: still suspended in \<^verbatim>\<open>receive_text\<close>, every frame consumed), the bridge,
  and the frames it never read.
\<close>

fun receive_from_signalwire ::
  "rx list \<Rightarrow> bridge \<Rightarrow> (error + unit) option \<times> bridge \<times> rx list" where
  "receive_from_signalwire [] b = (None, b, [])"
| "receive_from_signalwire (r # rs) b =
     (case receive_iteration r b of
        (Inl e, b1) \<Rightarrow> (Some (Inl e), b1, rs)
      | (Inr Break, b1) \<Rightarrow> (Some (Inr ()), b1, rs)
      | (Inr Continue, b1) \<Rightarrow> receive_from_signalwire rs b1)"

subsection \<open>Kinds of inbound frame\<close>

text \<open>
  How the inbound loop dispatches a frame it has read: \<open>start_event\<close> for the \<^verbatim>\<open>start\<close>
  branch, \<open>start_with_id\<close> when the event also carries a truthy stream identifier under
  \<^verbatim>\<open>streamId\<close> or \<^verbatim>\<open>stream_id\<close>, \<open>media_chunk\<close> for the non-empty \<^verbatim>\<open>media.payload\<close> of a
  \<^verbatim>\<open>media\<close> event, \<open>end_event\<close> for \<^verbatim>\<open>stop\<close> and \<^verbatim>\<open>close\<close>.
\<close>

fun start_event :: "rx \<Rightarrow> bool" where
  "start_event (Frame (Json (JObj payload))) = (get_or ''event'' ''type'' payload = JStr ''start'')"
| "start_event r = False"

fun start_with_id :: "rx \<Rightarrow> bool" where
  "start_with_id (Frame (Json (JObj payload))) =
     (get_or ''event'' ''type'' payload = JStr ''start'' \<and>
      truthy (get_or ''streamId'' ''stream_id'' payload))"
| "start_with_id r = False"

fun media_chunk :: "rx \<Rightarrow> json option" where
  "media_chunk (Frame (Json (JObj payload))) =
     (if get_or ''event'' ''type'' payload = JStr ''media'' then
        (case map_of payload ''media'' of
           Some (JObj media) \<Rightarrow>
             if truthy (lookup media ''payload'') then Some (lookup media ''payload'') else None
         | _ \<Rightarrow> None)
      else None)"
| "media_chunk r = None"

fun end_event :: "rx \<Rightarrow> bool" where
  "end_event (Frame (Json (JObj payload))) =
     (get_or ''event'' ''type'' payload \<in> {JStr ''stop'', JStr ''close''})"
| "end_event r = False"

text \<open>The frames a loop has read, given the frames delivered and the frames left.\<close>

definition consumed :: "rx list \<Rightarrow> rx list \<Rightarrow> rx list" where
  "consumed rs rest = take (length rs - length rest) rs"


definition media_frame :: "json \<Rightarrow> json \<Rightarrow> json" where
  "media_frame sid audio_base64 =
     JObj [(''event'', JStr ''media''), (''streamId'', sid),
           (''media'', JObj [(''payload'', audio_base64)])]"

definition send_audio_to_signalwire :: "json \<Rightarrow> bridge \<Rightarrow> (error + unit) \<times> bridge" where
  "send_audio_to_signalwire audio_base64 b =
     (if \<not> truthy (stream_id b) then (Inr (), b)
      else send_signalwire (media_frame (stream_id b) audio_base64) b)"

text \<open>\<^verbatim>\<open>event.get("delta", {})\<close>: the default replaces a missing key only.\<close>

fun dict_get_default :: "string \<Rightarrow> json \<Rightarrow> json \<Rightarrow> error + json" where
  "dict_get_default k d (JObj kvs) = Inr (case map_of kvs k of None \<Rightarrow> d | Some v \<Rightarrow> v)"
| "dict_get_default k d _ = Inl AttributeError"

text \<open>The body of \<^verbatim>\<open>async for event in ...\<close> in \<^verbatim>\<open>_forward_openai_responses\<close>.\<close>

definition forward_event :: "json \<Rightarrow> bridge \<Rightarrow> (error + unit) \<times> bridge" where
  "forward_event event b =
     (case dict_get ''type'' event of
        Inl e \<Rightarrow> (Inl e, b)
      | Inr event_type \<Rightarrow>
          if event_type = JStr ''response.output_audio.delta'' then
            (case dict_get_default ''delta'' (JObj []) event of
               Inl e \<Rightarrow> (Inl e, b)
             | Inr delta \<Rightarrow>
                 (case dict_get ''audio'' delta of
                    Inl e \<Rightarrow> (Inl e, b)
                  | Inr audio_chunk \<Rightarrow>
                      if truthy audio_chunk then send_audio_to_signalwire audio_chunk b
                      else (Inr (), b)))
          else (Inr (), b))"

text \<open>
  The audio chunk the outbound loop forwards for a message of the AI service:
  a \<^verbatim>\<open>response.output_audio.delta\<close> event whose \<^verbatim>\<open>delta\<close> is a \<^verbatim>\<open>dict\<close> with a truthy
  \<^verbatim>\<open>audio\<close>.
\<close>

fun audio_delta :: "text_frame \<Rightarrow> json option" where
  "audio_delta (Json (JObj event)) =
     (if lookup event ''type'' = JStr ''response.output_audio.delta'' then
        (case map_of event ''delta'' of
           Some (JObj delta) \<Rightarrow>
             if truthy (lookup delta ''audio'') then Some (lookup delta ''audio'') else None
         | _ \<Rightarrow> None)
      else None)"
| "audio_delta m = None"

section \<open>The two loops as tasks of one event loop\<close>

text \<open>
  \<^verbatim>\<open>run\<close> starts the two loops as tasks. The system moves in steps: the receiver handles
  one delivered frame, or the forwarder goes once round its loop, or the environment acts
  (a frame arrives on either websocket, the AI service starts closing or ends its
  connection). One turn of a loop is one step: the state of the AI websocket is taken not
  to change between the sends of one turn. The frames that have arrived and are not yet
  read wait in \<open>sw_inbox\<close> and \<open>ai_inbox\<close>, as they do inside the websocket libraries.
\<close>

datatype status = NotCreated | Running | Finished | Failed error | Cancelling | Cancelled

text \<open>Where the forwarder is: in \<^verbatim>\<open>await self._ready.wait()\<close>, or in the \<^verbatim>\<open>async for\<close>.\<close>

datatype position = WaitReady | Iterate gen

record system =
  bridge :: bridge
  sw_inbox :: "rx list"
  ai_inbox :: "text_frame list"
  ai_ended :: "bool option"
  receiver :: status
  forwarder :: status
  position :: position

datatype action =
    SwArrives rx
  | AiArrives text_frame
  | AiClosing
  | AiCloses bool
  | RunReceiver
  | RunForwarder

definition create_tasks :: "bridge \<Rightarrow> system" where
  "create_tasks b =
     \<lparr>bridge = b, sw_inbox = [], ai_inbox = [], ai_ended = None,
      receiver = Running, forwarder = Running, position = WaitReady\<rparr>"

text \<open>
  What the AI service does to the websocket: its close frame arrives (\<open>peer_closing\<close>),
  the connection is gone (\<open>peer_closes\<close>).
\<close>

definition peer_closing :: "client \<Rightarrow> client" where
  "peer_closing c =
     c\<lparr>connection := (case connection c of Some OPEN \<Rightarrow> Some CLOSING | st \<Rightarrow> st)\<rparr>"

definition peer_closes :: "client \<Rightarrow> client" where
  "peer_closes c =
     c\<lparr>connection := (case connection c of None \<Rightarrow> None | Some st \<Rightarrow> Some CLOSED)\<rparr>"

text \<open>
  A task whose cancellation has been requested gets \<^verbatim>\<open>CancelledError\<close> when the event loop
  next runs it: it is done then, and has run no further statement of its loop.
\<close>

definition receiver_step :: "system \<Rightarrow> system" where
  "receiver_step s =
     (if receiver s = Cancelling then s\<lparr>receiver := Cancelled\<rparr>
      else if receiver s \<noteq> Running then s
      else
        (case sw_inbox s of
           [] \<Rightarrow> s
         | r # rs \<Rightarrow>
             (case receive_iteration r (bridge s) of
                (Inl e, b1) \<Rightarrow> s\<lparr>bridge := b1, sw_inbox := rs, receiver := Failed e\<rparr>
              | (Inr Break, b1) \<Rightarrow> s\<lparr>bridge := b1, sw_inbox := rs, receiver := Finished\<rparr>
              | (Inr Continue, b1) \<Rightarrow> s\<lparr>bridge := b1, sw_inbox := rs\<rparr>)))"

definition forwarder_step :: "system \<Rightarrow> system" where
  "forwarder_step s =
     (if forwarder s = Cancelling then s\<lparr>forwarder := Cancelled\<rparr>
      else if forwarder s \<noteq> Running then s
      else if position s = WaitReady \<and> \<not> ready (bridge s) then s
      else
        (case responses (openai_client (bridge s))
                (case position s of WaitReady \<Rightarrow> NotStarted | Iterate g \<Rightarrow> g)
                (ai_inbox s) (ai_ended s) of
           (Yield event, g1, rest) \<Rightarrow>
             (case forward_event event (bridge s) of
                (Inl e, b1) \<Rightarrow>
                  s\<lparr>bridge := b1, ai_inbox := rest, position := Iterate g1, forwarder := Failed e\<rparr>
              | (Inr u, b1) \<Rightarrow> s\<lparr>bridge := b1, ai_inbox := rest, position := Iterate g1\<rparr>)
         | (StopIteration, g1, rest) \<Rightarrow>
             s\<lparr>ai_inbox := rest, position := Iterate g1, forwarder := Finished\<rparr>
         | (Raise e, g1, rest) \<Rightarrow>
             s\<lparr>ai_inbox := rest, position := Iterate g1, forwarder := Failed e\<rparr>
         | (Suspended, g1, rest) \<Rightarrow> s\<lparr>ai_inbox := rest, position := Iterate g1\<rparr>))"

fun step :: "action \<Rightarrow> system \<Rightarrow> system" where
  "step (SwArrives r) s = s\<lparr>sw_inbox := sw_inbox s @ [r]\<rparr>"
| "step (AiArrives m) s = (if ai_ended s = None then s\<lparr>ai_inbox := ai_inbox s @ [m]\<rparr> else s)"
| "step AiClosing s =
     (if ai_ended s = None then
        s\<lparr>bridge := (bridge s)\<lparr>openai_client := peer_closing (openai_client (bridge s))\<rparr>\<rparr>
      else s)"
| "step (AiCloses clean) s =
     (if ai_ended s = None then
        s\<lparr>ai_ended := Some clean,
          bridge := (bridge s)\<lparr>openai_client := peer_closes (openai_client (bridge s))\<rparr>\<rparr>
      else s)"
| "step RunReceiver s = receiver_step s"
| "step RunForwarder s = forwarder_step s"

text \<open>
  \<open>handles_start a s\<close>: the action is the receiver reading a frame that it dispatches to
  the \<^verbatim>\<open>start\<close> branch.
\<close>

definition handles_start :: "action \<Rightarrow> system \<Rightarrow> bool" where
  "handles_start a s =
     (a = RunReceiver \<and> receiver s = Running \<and>
      (case sw_inbox s of [] \<Rightarrow> False | r # rs \<Rightarrow> start_event r))"

text \<open>
  What holds of the telephony side in every state of a run: the session is ready exactly
  when something has been sent, the forwarder is past its wait only when the session is
  ready, and the first frame sent is the \<^verbatim>\<open>ready\<close> acknowledgement.
\<close>

definition ready_gate :: "system \<Rightarrow> bool" where
  "ready_gate s =
     ((ready (bridge s) = (sw_sent (bridge s) \<noteq> [])) \<and>
      (ready (bridge s) \<or> position s = WaitReady) \<and>
      (sw_sent (bridge s) = [] \<or> hd (sw_sent (bridge s)) = ready_frame))"

text \<open>The states of a task that has been created and not cancelled.\<close>

fun started :: "status \<Rightarrow> bool" where
  "started Running = True"
| "started Finished = True"
| "started (Failed e) = True"
| "started t = False"

fun exec :: "action list \<Rightarrow> system \<Rightarrow> system" where
  "exec [] s = s"
| "exec (a # as) s = exec as (step a s)"

text \<open>
  The end of \<^verbatim>\<open>run\<close>. \<^verbatim>\<open>task.cancel()\<close> on a pending task requests its cancellation: the
  task is not done yet. \<^verbatim>\<open>done\<close> is a set, so the order in which \<^verbatim>\<open>for task in done\<close> visits
  two done tasks is not fixed: \<open>receiver_first\<close> chooses it.
\<close>

definition cancel :: "status \<Rightarrow> status" where
  "cancel t = (if t = Running then Cancelling else t)"

definition cancelled :: "status \<Rightarrow> status" where
  "cancelled t = (if t = Cancelling then Cancelled else t)"

definition done_tasks :: "bool \<Rightarrow> system \<Rightarrow> status list" where
  "done_tasks receiver_first s =
     filter (\<lambda>t. t \<noteq> Running)
       (if receiver_first then [receiver s, forwarder s] else [forwarder s, receiver s])"

fun first_exception :: "status list \<Rightarrow> error + unit" where
  "first_exception [] = Inr ()"
| "first_exception (Failed e # ts) = Inl e"
| "first_exception (t # ts) = first_exception ts"

text \<open>
  \<^verbatim>\<open>run\<close>, for a schedule: the actions that happen until \<^verbatim>\<open>asyncio.wait\<close> returns, which is
  at the first completion or some steps after it. The result is \<open>None\<close> when neither task
  has completed by then (\<^verbatim>\<open>run\<close> is still suspended). Leaving \<^verbatim>\<open>async with\<close> calls \<^verbatim>\<open>close\<close>,
  on the normal path and on the raising one; when \<^verbatim>\<open>connect\<close> raises, the block is never
  entered. \<^verbatim>\<open>run\<close> never awaits a task it has cancelled. It suspends once more only if
  \<^verbatim>\<open>close\<close> awaits \<^verbatim>\<open>connection.close()\<close>, which it does for a client that is connected:
  the event loop then runs the cancelled task, which ends. Otherwise \<^verbatim>\<open>run\<close> returns or
  raises with the cancellation still pending.
\<close>

definition run ::
  "bool \<Rightarrow> bool \<Rightarrow> action list \<Rightarrow> bridge \<Rightarrow> (error + unit) option \<times> system" where
  "run handshake_ok receiver_first schedule b =
     (case connect handshake_ok (openai_client b) of
        (Inl e, c) \<Rightarrow>
          (Some (Inl e),
           (create_tasks (b\<lparr>accepted := True, openai_client := c\<rparr>))
             \<lparr>receiver := NotCreated, forwarder := NotCreated\<rparr>)
      | (Inr u, c) \<Rightarrow>
          (let s = exec schedule (create_tasks (b\<lparr>accepted := True, openai_client := c\<rparr>)) in
           if done_tasks receiver_first s = [] then (None, s)
           else
             (let s1 = s\<lparr>receiver := cancel (receiver s), forwarder := cancel (forwarder s)\<rparr>;
                  s2 = s1\<lparr>bridge :=
                         (bridge s1)\<lparr>openai_client := snd (close (openai_client (bridge s1)))\<rparr>\<rparr>
              in (Some (first_exception (done_tasks receiver_first s)),
                  if is_connected (openai_client (bridge s1))
                  then s2\<lparr>receiver := cancelled (receiver s2),
                          forwarder := cancelled (forwarder s2)\<rparr>
                  else s2))))"

section \<open>The realtime client: sending, closing, iterating\<close>

lemma is_connected_sent [simp]: "is_connected (c\<lparr>sent := x\<rparr>) = is_connected c"
  by (simp add: is_connected_def)

lemma new_client_not_connected: "\<not> is_connected (new_client cfg)"
  by (simp add: new_client_def is_connected_def)

lemma closed_not_connected: "\<not> is_connected (snd (close c))"
  by (simp add: close_def is_connected_def)

text \<open>
  C8, amended. \<^verbatim>\<open>send_audio_chunk\<close> on a client whose websocket is open sends exactly one
  \<^verbatim>\<open>input_audio_buffer.append\<close> message carrying the chunk, followed by one
  \<^verbatim>\<open>input_audio_buffer.commit\<close> and one \<^verbatim>\<open>response.create\<close> when \<^verbatim>\<open>end_of_input\<close> is true and
  by nothing when it is false. On a client that is not connected (no websocket, or a
  closed one) it fails with the not-connected error and sends nothing. On a client whose
  websocket is closing, which still counts as connected, it fails with the websocket's
  connection-closed error and sends nothing. The client is unchanged when it fails.
\<close>

theorem send_audio_chunk_by_state:
  "send_audio_chunk audio_base64 end_of_input c =
     (if connection c = Some OPEN then
        (Inr (),
         c\<lparr>sent := sent c @
            [JObj [(''type'', JStr ''input_audio_buffer.append''), (''audio'', audio_base64)]] @
            (if end_of_input then
               [JObj [(''type'', JStr ''input_audio_buffer.commit'')],
                JObj [(''type'', JStr ''response.create''), (''response'', JObj [])]]
             else [])\<rparr>)
      else if connection c = Some CLOSING then (Inl ConnectionClosedError, c)
      else (Inl NotConnected, c))"
proof (cases "connection c")
  case None
  then show ?thesis by (simp add: send_audio_chunk_def send_json_def is_connected_def)
next
  case (Some st)
  then show ?thesis
    by (cases st)
      (simp_all add: send_audio_chunk_def send_json_def is_connected_def append_message_def
        commit_message_def response_create_message_def)
qed

text \<open>
  C8 as stated fails: after the close frame of the AI service has arrived the client is
  still connected, and \<^verbatim>\<open>send_audio_chunk\<close> sends no append message and fails with an error
  that is not the not-connected error.
\<close>

theorem send_audio_chunk_closing_counterexample:
  "is_connected (peer_closing (snd (connect True (new_client (default_config ''k''))))) \<and>
   send_audio_chunk (JStr ''QUJD'') True
     (peer_closing (snd (connect True (new_client (default_config ''k''))))) =
   (Inl ConnectionClosedError,
    peer_closing (snd (connect True (new_client (default_config ''k'')))))"
  by (simp add: send_audio_chunk_def send_json_def is_connected_def peer_closing_def connect_def
      new_client_def)

text \<open>
  C9. \<^verbatim>\<open>close\<close> is idempotent. The first and the second call raise nothing, the second
  call changes nothing, the client holds no connection afterwards, and the two calls
  together call \<^verbatim>\<open>close()\<close> of the underlying connection at most once: once when the
  client was connected, not at all when the connection was already closed or never opened.
\<close>

theorem close_idempotent:
  "fst (close c) = Inr () \<and>
   fst (close (snd (close c))) = Inr () \<and>
   snd (close (snd (close c))) = snd (close c) \<and>
   connection (snd (close c)) = None \<and>
   close_calls (snd (close (snd (close c)))) \<le> Suc (close_calls c) \<and>
   close_calls (snd (close (snd (close c)))) =
     (if is_connected c then Suc (close_calls c) else close_calls c)"
  by (simp add: close_def is_connected_def)

text \<open>
  C10. The first step of iterating \<^verbatim>\<open>responses()\<close> on a client that is not connected raises
  the not-connected error, whatever the connection has received: it does not stop as an
  empty sequence would, and the generator is finished afterwards. A client is not
  connected before \<^verbatim>\<open>connect\<close> and after \<^verbatim>\<open>close\<close>.
\<close>

theorem responses_not_connected:
  "(\<not> is_connected c \<longrightarrow>
      responses c NotStarted inbox ended = (Raise NotConnected, Exhausted, inbox) \<and>
      fst (responses c NotStarted inbox ended) \<noteq> StopIteration) \<and>
   \<not> is_connected (new_client cfg) \<and>
   \<not> is_connected (snd (close c))"
  by (simp add: responses_def new_client_not_connected closed_not_connected)

theorem responses_not_connected_witness:
  "\<not> is_connected (snd (close (snd (connect True (new_client
       \<lparr>api_key = ''k'', model = ''m'', voice = ''verse'', instructions = None\<rparr>))))) \<and>
   responses (snd (close (snd (connect True (new_client
       \<lparr>api_key = ''k'', model = ''m'', voice = ''verse'', instructions = None\<rparr>)))))
     NotStarted [Json (JObj [(''type'', JStr ''response.completed'')])] None =
     (Raise NotConnected, Exhausted, [Json (JObj [(''type'', JStr ''response.completed'')])])"
  using responses_not_connected
    [of "snd (close (snd (connect True (new_client
       \<lparr>api_key = ''k'', model = ''m'', voice = ''verse'', instructions = None\<rparr>))))"
       "[Json (JObj [(''type'', JStr ''response.completed'')])]" None]
  by (simp add: closed_not_connected)

section \<open>The inbound loop\<close>

lemma receive_iteration_start:
  assumes "get_or ''event'' ''type'' payload = JStr ''start''"
  shows "receive_iteration (Frame (Json (JObj payload))) b =
     (let sid = get_or ''streamId'' ''stream_id'' payload in
      if truthy sid
      then (Inr Continue, b\<lparr>stream_id := sid, sw_sent := sw_sent b @ [ready_frame], ready := True\<rparr>)
      else (Inr Continue, b\<lparr>stream_id := sid\<rparr>))"
  using assms
  by (simp add: receive_iteration_def on_start_def send_signalwire_def continue_after_def Let_def)

lemma connection_cases:
  obtains (opened) "connection c = Some OPEN" "is_connected c"
  | (closing) "connection c = Some CLOSING" "is_connected c"
  | (gone) "connection c \<noteq> Some OPEN" "connection c \<noteq> Some CLOSING" "\<not> is_connected c"
proof (cases "connection c")
  case None
  with gone show ?thesis by (simp add: is_connected_def)
next
  case (Some st)
  with opened closing gone show ?thesis by (cases st) (simp_all add: is_connected_def)
qed

lemma with_client_send_json:
  "with_client (send_json p) b =
     (if connection (openai_client b) = Some OPEN
      then (Inr (), b\<lparr>openai_client := (openai_client b)\<lparr>sent := sent (openai_client b) @ [p]\<rparr>\<rparr>)
      else if connection (openai_client b) = Some CLOSING then (Inl ConnectionClosedError, b)
      else (Inl NotConnected, b))"
  by (cases "openai_client b" rule: connection_cases) (simp_all add: with_client_def send_json_def)

lemma with_client_chunk:
  "with_client (send_audio_chunk a False) b =
     (if connection (openai_client b) = Some OPEN
      then (Inr (), b\<lparr>openai_client := (openai_client b)\<lparr>sent := sent (openai_client b) @ [append_message a]\<rparr>\<rparr>)
      else if connection (openai_client b) = Some CLOSING then (Inl ConnectionClosedError, b)
      else (Inl NotConnected, b))"
  by (cases "openai_client b" rule: connection_cases)
    (simp_all add: with_client_def send_audio_chunk_def send_json_def)

lemma receive_iteration_end:
  assumes "get_or ''event'' ''type'' payload \<in> {JStr ''stop'', JStr ''close''}"
  shows "receive_iteration (Frame (Json (JObj payload))) b =
     (if connection (openai_client b) = Some OPEN
      then (Inr Break, b\<lparr>openai_client := (openai_client b)\<lparr>sent := sent (openai_client b) @ [commit_message, response_create_message]\<rparr>\<rparr>)
      else if connection (openai_client b) = Some CLOSING then (Inl ConnectionClosedError, b)
      else (Inl NotConnected, b))"
  using assms
  by (auto simp add: receive_iteration_def with_client_send_json Let_def)

lemma receive_iteration_media:
  assumes "get_or ''event'' ''type'' payload = JStr ''media''"
  shows "receive_iteration (Frame (Json (JObj payload))) b = continue_after (on_media payload b)"
  using assms by (simp add: receive_iteration_def Let_def)

lemma on_media_chunk:
  assumes "map_of payload ''media'' = Some (JObj media)" "truthy (lookup media ''payload'')"
  shows "on_media payload b = with_client (send_audio_chunk (lookup media ''payload'') False) b"
  using assms by (simp add: on_media_def)

lemmas iteration_unfold =
  receive_iteration_def Let_def on_start_def send_signalwire_def continue_after_def
  on_media_def with_client_chunk with_client_send_json

lemma receive_iteration_sw_sent:
  "sw_sent (snd (receive_iteration r b)) = sw_sent b @ (if start_with_id r then [ready_frame] else [])"
proof (cases r)
  case Disconnect
  then show ?thesis by (simp add: receive_iteration_def)
next
  case (Frame m)
  show ?thesis
  proof (cases m)
    case NotJson
    with Frame show ?thesis by (simp add: receive_iteration_def)
  next
    case (Json j)
    show ?thesis
    proof (cases j)
      case (JObj payload)
      with Frame Json show ?thesis
        by (auto simp add: iteration_unfold split: option.splits sum.splits)
    qed (use Frame Json in \<open>simp_all add: receive_iteration_def\<close>)
  qed
qed

lemma rest_length: "length (snd (snd (receive_from_signalwire rs b))) \<le> length rs"
proof (induction rs arbitrary: b)
  case Nil
  then show ?case by simp
next
  case (Cons r rs)
  show ?case
  proof (cases "receive_iteration r b")
    case (Pair res b1)
    show ?thesis
    proof (cases res)
      case (Inl e)
      with Pair show ?thesis by simp
    next
      case (Inr c)
      with Pair Cons.IH [of b1] show ?thesis by (cases c) (simp_all add: le_SucI)
    qed
  qed
qed

lemma consumed_Cons:
  "length rest \<le> length rs \<Longrightarrow> consumed (r # rs) rest = r # consumed rs rest"
  by (simp add: consumed_def Suc_diff_le)

lemma consumed_all [simp]: "consumed rs [] = rs"
  by (simp add: consumed_def)

lemma consumed_one [simp]: "consumed (r # rs) rs = [r]"
  by (simp add: consumed_def)

text \<open>One unfolding of the inbound loop.\<close>

lemma loop_cases:
  obtains (failed) e b1 where "receive_iteration r b = (Inl e, b1)"
      "receive_from_signalwire (r # rs) b = (Some (Inl e), b1, rs)"
  | (break) b1 where "receive_iteration r b = (Inr Break, b1)"
      "receive_from_signalwire (r # rs) b = (Some (Inr ()), b1, rs)"
  | (continue) b1 where "receive_iteration r b = (Inr Continue, b1)"
      "receive_from_signalwire (r # rs) b = receive_from_signalwire rs b1"
proof (cases "receive_iteration r b")
  case (Pair res b1)
  show ?thesis
  proof (cases res)
    case (Inl e)
    with Pair failed show ?thesis by simp
  next
    case (Inr c)
    with Pair break continue show ?thesis by (cases c) simp_all
  qed
qed

lemma loop_sw_sent:
  "sw_sent (fst (snd (receive_from_signalwire rs b))) =
     sw_sent b @
     replicate (length (filter start_with_id
        (consumed rs (snd (snd (receive_from_signalwire rs b)))))) ready_frame"
proof (induction rs arbitrary: b)
  case Nil
  then show ?case by simp
next
  case (Cons r rs)
  show ?case
  proof (cases rule: loop_cases [of r b rs])
    case (failed e b1)
    with receive_iteration_sw_sent [of r b] show ?thesis by simp
  next
    case (break b1)
    with receive_iteration_sw_sent [of r b] show ?thesis by simp
  next
    case (continue b1)
    with receive_iteration_sw_sent [of r b] Cons.IH [of b1] rest_length [of rs b1]
    show ?thesis by (simp add: consumed_Cons)
  qed
qed

lemma receive_iteration_upstream:
  "openai_client (snd (receive_iteration r b)) =
     (if connection (openai_client b) = Some OPEN then
        (openai_client b)\<lparr>sent := sent (openai_client b) @
          (case media_chunk r of
             Some a \<Rightarrow> [append_message a]
           | None \<Rightarrow> if end_event r then [commit_message, response_create_message] else [])\<rparr>
      else openai_client b)"
proof (cases r)
  case Disconnect
  then show ?thesis by (simp add: receive_iteration_def)
next
  case (Frame m)
  show ?thesis
  proof (cases m)
    case NotJson
    with Frame show ?thesis by (simp add: receive_iteration_def)
  next
    case (Json j)
    show ?thesis
    proof (cases j)
      case (JObj payload)
      with Frame Json show ?thesis
        by (auto simp add: iteration_unfold split: option.splits sum.splits json.splits)
    qed (use Frame Json in \<open>simp_all add: receive_iteration_def\<close>)
  qed
qed

lemma loop_upstream:
  "openai_client (fst (snd (receive_from_signalwire rs b))) =
     (if connection (openai_client b) = Some OPEN then
        (openai_client b)\<lparr>sent := sent (openai_client b) @
          concat (map (\<lambda>r. case media_chunk r of
                 Some a \<Rightarrow> [append_message a]
               | None \<Rightarrow> if end_event r then [commit_message, response_create_message] else [])
            (consumed rs (snd (snd (receive_from_signalwire rs b)))))\<rparr>
      else openai_client b)"
proof (induction rs arbitrary: b)
  case Nil
  then show ?case by simp
next
  case (Cons r rs)
  show ?case
  proof (cases rule: loop_cases [of r b rs])
    case (failed e b1)
    with receive_iteration_upstream [of r b] show ?thesis by simp
  next
    case (break b1)
    with receive_iteration_upstream [of r b] show ?thesis by simp
  next
    case (continue b1)
    with receive_iteration_upstream [of r b] Cons.IH [of b1] rest_length [of rs b1]
    show ?thesis by (simp add: consumed_Cons)
  qed
qed

text \<open>
  The receiver task and the loop agree: as many receiver steps as there are frames
  waiting do to the bridge what \<open>receive_from_signalwire\<close> does on those frames.
\<close>

lemma receiver_stopped:
  "receiver s \<noteq> Running \<Longrightarrow> receiver s \<noteq> Cancelling \<Longrightarrow>
     exec (replicate n RunReceiver) s = s"
  by (induction n) (simp_all add: receiver_step_def)

lemma receiver_runs_the_loop:
  assumes "receiver s = Running" and "sw_inbox s = rs"
  shows "exec (replicate (length rs) RunReceiver) s =
     s\<lparr>bridge := fst (snd (receive_from_signalwire rs (bridge s))),
       sw_inbox := snd (snd (receive_from_signalwire rs (bridge s))),
       receiver :=
         (case fst (receive_from_signalwire rs (bridge s)) of
            None \<Rightarrow> Running
          | Some (Inl e) \<Rightarrow> Failed e
          | Some (Inr u) \<Rightarrow> Finished)\<rparr>"
  using assms
proof (induction rs arbitrary: s)
  case Nil
  then show ?case by simp
next
  case (Cons r rs)
  show ?case
  proof (cases rule: loop_cases [of r "bridge s" rs])
    case (failed e b1)
    with Cons.prems have "receiver_step s = s\<lparr>bridge := b1, sw_inbox := rs, receiver := Failed e\<rparr>"
      by (simp add: receiver_step_def)
    with failed show ?thesis by (simp add: receiver_stopped)
  next
    case (break b1)
    with Cons.prems have "receiver_step s = s\<lparr>bridge := b1, sw_inbox := rs, receiver := Finished\<rparr>"
      by (simp add: receiver_step_def)
    with break show ?thesis by (simp add: receiver_stopped)
  next
    case (continue b1)
    with Cons.prems have st: "receiver_step s = s\<lparr>bridge := b1, sw_inbox := rs\<rparr>"
      by (simp add: receiver_step_def)
    from Cons.prems have "receiver (s\<lparr>bridge := b1, sw_inbox := rs\<rparr>) = Running"
      "sw_inbox (s\<lparr>bridge := b1, sw_inbox := rs\<rparr>) = rs" by simp_all
    from Cons.IH [OF this] continue st show ?thesis by simp
  qed
qed

section \<open>Steps of the two loops\<close>

lemma receive_iteration_session:
  "\<not> start_event r \<Longrightarrow>
     stream_id (snd (receive_iteration r b)) = stream_id b \<and>
     ready (snd (receive_iteration r b)) = ready b"
proof (cases r)
  case Disconnect
  then show ?thesis by (simp add: receive_iteration_def)
next
  case (Frame m)
  assume ns: "\<not> start_event r"
  show ?thesis
  proof (cases m)
    case NotJson
    with Frame show ?thesis by (simp add: receive_iteration_def)
  next
    case (Json j)
    show ?thesis
    proof (cases j)
      case (JObj payload)
      with Frame Json ns show ?thesis
        by (auto simp add: iteration_unfold split: option.splits sum.splits json.splits)
    qed (use Frame Json in \<open>simp_all add: receive_iteration_def\<close>)
  qed
qed

lemma receive_iteration_ready:
  "ready (snd (receive_iteration r b)) = (ready b \<or> start_with_id r)"
proof (cases r)
  case Disconnect
  then show ?thesis by (simp add: receive_iteration_def)
next
  case (Frame m)
  show ?thesis
  proof (cases m)
    case NotJson
    with Frame show ?thesis by (simp add: receive_iteration_def)
  next
    case (Json j)
    show ?thesis
    proof (cases j)
      case (JObj payload)
      with Frame Json show ?thesis
        by (auto simp add: iteration_unfold split: option.splits sum.splits json.splits)
    qed (use Frame Json in \<open>simp_all add: receive_iteration_def\<close>)
  qed
qed

lemma forward_event_effect:
  "snd (forward_event event b) = b \<or>
   (truthy (stream_id b) \<and>
    (\<exists>a. snd (forward_event event b) = b\<lparr>sw_sent := sw_sent b @ [media_frame (stream_id b) a]\<rparr>))"
  by (auto simp add: forward_event_def send_audio_to_signalwire_def send_signalwire_def
      split: sum.splits)

lemma forward_event_session:
  "stream_id (snd (forward_event event b)) = stream_id b \<and>
   ready (snd (forward_event event b)) = ready b \<and>
   openai_client (snd (forward_event event b)) = openai_client b"
  using forward_event_effect [of event b] by auto

lemma receiver_step_bridge:
  "bridge (receiver_step s) =
     (if receiver s = Running \<and> sw_inbox s \<noteq> []
      then snd (receive_iteration (hd (sw_inbox s)) (bridge s)) else bridge s)"
  by (auto simp add: receiver_step_def split: list.splits sum.splits ctl.splits prod.splits)

lemma forwarder_step_bridge:
  "bridge (forwarder_step s) = bridge s \<or>
   (\<exists>event. bridge (forwarder_step s) = snd (forward_event event (bridge s)))"
  by (auto simp add: forwarder_step_def split: prod.splits anext.splits sum.splits; metis snd_conv)

lemma step_session:
  "\<not> handles_start a s \<Longrightarrow>
     stream_id (bridge (step a s)) = stream_id (bridge s) \<and>
     ready (bridge (step a s)) = ready (bridge s)"
proof (cases a)
  case RunReceiver
  assume "\<not> handles_start a s"
  with RunReceiver have "receiver s = Running \<and> sw_inbox s \<noteq> [] \<longrightarrow> \<not> start_event (hd (sw_inbox s))"
    by (auto simp add: handles_start_def split: list.splits)
  with RunReceiver show ?thesis
    by (simp add: receiver_step_bridge receive_iteration_session)
next
  case RunForwarder
  with forwarder_step_bridge [of s] show ?thesis
    by (auto simp add: forward_event_session)
qed simp_all

lemma step_ready_kept: "ready (bridge s) \<Longrightarrow> ready (bridge (step a s))"
proof (cases a)
  case RunReceiver
  assume "ready (bridge s)"
  with RunReceiver show ?thesis by (simp add: receiver_step_bridge receive_iteration_ready)
next
  case RunForwarder
  assume "ready (bridge s)"
  with RunForwarder forwarder_step_bridge [of s] show ?thesis
    by (auto simp add: forward_event_session)
qed simp_all

lemmas run_unfold =
  run_def connect_def close_def send_json_def new_client_def new_bridge_def is_connected_def
  create_tasks_def receiver_step_def forwarder_step_def responses_def forward_event_def
  send_audio_to_signalwire_def peer_closes_def peer_closing_def done_tasks_def cancel_def
  cancelled_def
  iteration_unfold get_or_def py_or_def lookup_def default_config_def session_update_def

section \<open>What the inbound loop forwards\<close>

lemma step_sent:
  "sent (openai_client (bridge (step a s))) =
     sent (openai_client (bridge s)) @
     (if a = RunReceiver \<and> receiver s = Running \<and> sw_inbox s \<noteq> [] \<and>
         connection (openai_client (bridge s)) = Some OPEN
      then (case media_chunk (hd (sw_inbox s)) of
              Some c \<Rightarrow> [append_message c]
            | None \<Rightarrow>
                if end_event (hd (sw_inbox s)) then [commit_message, response_create_message]
                else [])
      else [])"
proof (cases a)
  case RunReceiver
  then show ?thesis by (simp add: receiver_step_bridge receive_iteration_upstream)
next
  case RunForwarder
  with forwarder_step_bridge [of s] show ?thesis by (auto simp add: forward_event_session)
qed (simp_all add: peer_closes_def peer_closing_def)

text \<open>
  C4. A \<^verbatim>\<open>media\<close> event with a non-empty \<^verbatim>\<open>media.payload\<close> makes the inbound loop do exactly
  one \<^verbatim>\<open>send_audio_chunk\<close> call, with \<^verbatim>\<open>end_of_input\<close> false, for that payload, and go on
  to the next frame when the call succeeds. Over a run of the loop on an open websocket,
  what the client has sent grows by one \<^verbatim>\<open>input_audio_buffer.append\<close> message per such
  event, in the order the events were read, each chunk in a message of its own (and by the
  commit and response request of a final \<^verbatim>\<open>stop\<close> or \<^verbatim>\<open>close\<close>); on a websocket that is
  not open the loop sends nothing. Whatever the environment does between the turns of the
  loop, every step of the system appends to what has been sent exactly the messages of
  the frame the receiver handles in that step, or nothing.
\<close>

theorem media_chunks_in_order:
  "(media_chunk r = Some a \<longrightarrow>
      receive_iteration r b = continue_after (with_client (send_audio_chunk a False) b)) \<and>
   sent (openai_client (fst (snd (receive_from_signalwire rs b)))) =
     (if connection (openai_client b) = Some OPEN then
        sent (openai_client b) @
          concat (map (\<lambda>r. case media_chunk r of
                 Some c \<Rightarrow> [JObj [(''type'', JStr ''input_audio_buffer.append''), (''audio'', c)]]
               | None \<Rightarrow>
                   if end_event r
                   then [JObj [(''type'', JStr ''input_audio_buffer.commit'')],
                         JObj [(''type'', JStr ''response.create''), (''response'', JObj [])]]
                   else [])
            (consumed rs (snd (snd (receive_from_signalwire rs b)))))
      else sent (openai_client b)) \<and>
   sent (openai_client (bridge (step act s))) =
     sent (openai_client (bridge s)) @
     (if act = RunReceiver \<and> receiver s = Running \<and> sw_inbox s \<noteq> [] \<and>
         connection (openai_client (bridge s)) = Some OPEN
      then (case media_chunk (hd (sw_inbox s)) of
              Some c \<Rightarrow> [JObj [(''type'', JStr ''input_audio_buffer.append''), (''audio'', c)]]
            | None \<Rightarrow>
                if end_event (hd (sw_inbox s))
                then [JObj [(''type'', JStr ''input_audio_buffer.commit'')],
                      JObj [(''type'', JStr ''response.create''), (''response'', JObj [])]]
                else [])
      else [])"
proof (intro conjI impI)
  assume chunk: "media_chunk r = Some a"
  then obtain payload where r: "r = Frame (Json (JObj payload))"
    by (cases r rule: media_chunk.cases) simp_all
  from chunk r have ev: "get_or ''event'' ''type'' payload = JStr ''media''"
    by (simp split: if_splits)
  from chunk r ev obtain media where
    m: "map_of payload ''media'' = Some (JObj media)" "truthy (lookup media ''payload'')"
       "a = lookup media ''payload''"
    by (auto split: option.splits json.splits if_splits)
  from r ev m show "receive_iteration r b = continue_after (with_client (send_audio_chunk a False) b)"
    by (simp add: receive_iteration_media on_media_chunk)
next
  show "sent (openai_client (fst (snd (receive_from_signalwire rs b)))) =
     (if connection (openai_client b) = Some OPEN then
        sent (openai_client b) @
          concat (map (\<lambda>r. case media_chunk r of
                 Some c \<Rightarrow> [JObj [(''type'', JStr ''input_audio_buffer.append''), (''audio'', c)]]
               | None \<Rightarrow>
                   if end_event r
                   then [JObj [(''type'', JStr ''input_audio_buffer.commit'')],
                         JObj [(''type'', JStr ''response.create''), (''response'', JObj [])]]
                   else [])
            (consumed rs (snd (snd (receive_from_signalwire rs b)))))
      else sent (openai_client b))"
    using loop_upstream
      [of rs b, unfolded append_message_def commit_message_def response_create_message_def]
    by simp
next
  show "sent (openai_client (bridge (step act s))) =
     sent (openai_client (bridge s)) @
     (if act = RunReceiver \<and> receiver s = Running \<and> sw_inbox s \<noteq> [] \<and>
         connection (openai_client (bridge s)) = Some OPEN
      then (case media_chunk (hd (sw_inbox s)) of
              Some c \<Rightarrow> [JObj [(''type'', JStr ''input_audio_buffer.append''), (''audio'', c)]]
            | None \<Rightarrow>
                if end_event (hd (sw_inbox s))
                then [JObj [(''type'', JStr ''input_audio_buffer.commit'')],
                      JObj [(''type'', JStr ''response.create''), (''response'', JObj [])]]
                else [])
      else [])"
    using step_sent
      [of act s, unfolded append_message_def commit_message_def response_create_message_def]
    by simp
qed

theorem media_chunks_in_order_witness:
  "media_chunk (Frame (Json (JObj [(''event'', JStr ''media''),
       (''media'', JObj [(''payload'', JStr ''QUJD'')])]))) = Some (JStr ''QUJD'') \<and>
   receive_from_signalwire
     [Frame (Json (JObj [(''event'', JStr ''media''), (''media'', JObj [(''payload'', JStr ''QUJD'')])])),
      Frame (Json (JObj [(''type'', JStr ''media''), (''media'', JObj [(''payload'', JStr ''REVG'')])]))]
     ((new_bridge (default_config ''k''))
        \<lparr>openai_client := snd (connect True (new_client (default_config ''k'')))\<rparr>) =
   (None,
    (new_bridge (default_config ''k''))
        \<lparr>openai_client := (snd (connect True (new_client (default_config ''k''))))
           \<lparr>sent := [session_update (default_config ''k''),
                     append_message (JStr ''QUJD''), append_message (JStr ''REVG'')]\<rparr>\<rparr>,
    [])"
  using media_chunks_in_order
    [of "Frame (Json (JObj [(''event'', JStr ''media''),
       (''media'', JObj [(''payload'', JStr ''QUJD'')])]))" "JStr ''QUJD''"
       "(new_bridge (default_config ''k''))
        \<lparr>openai_client := snd (connect True (new_client (default_config ''k'')))\<rparr>" "[]"]
  by (simp add: receive_iteration_def on_media_def with_client_chunk continue_after_def
      get_or_def py_or_def lookup_def connect_def send_json_def new_client_def is_connected_def
      new_bridge_def Let_def)

text \<open>
  C5, amended. On a \<^verbatim>\<open>stop\<close> or \<^verbatim>\<open>close\<close> event the inbound loop exits and reads no further
  frame. When the AI websocket is open it has sent exactly one
  \<^verbatim>\<open>input_audio_buffer.commit\<close> followed by exactly one \<^verbatim>\<open>response.create\<close> and ends without
  error. When the client is not connected (no websocket, or a closed one) it has sent
  nothing and ends with the not-connected error. When the websocket is closing, which
  still counts as connected, it has sent nothing and ends with the websocket's
  connection-closed error.
\<close>

theorem stop_event_exits:
  "end_event r \<Longrightarrow>
   receive_from_signalwire (r # rest) b =
     (if connection (openai_client b) = Some OPEN then
        (Some (Inr ()),
         b\<lparr>openai_client := (openai_client b)
              \<lparr>sent := sent (openai_client b) @
                 [JObj [(''type'', JStr ''input_audio_buffer.commit'')],
                  JObj [(''type'', JStr ''response.create''), (''response'', JObj [])]]\<rparr>\<rparr>,
         rest)
      else if connection (openai_client b) = Some CLOSING then
        (Some (Inl ConnectionClosedError), b, rest)
      else (Some (Inl NotConnected), b, rest))"
proof -
  assume e: "end_event r"
  then obtain payload where r: "r = Frame (Json (JObj payload))"
    by (cases r rule: end_event.cases) simp_all
  with e have "get_or ''event'' ''type'' payload \<in> {JStr ''stop'', JStr ''close''}" by simp
  from receive_iteration_end [OF this, of b] r show ?thesis
    by (simp add: commit_message_def response_create_message_def)
qed

theorem stop_event_exits_witness:
  "end_event (Frame (Json (JObj [(''event'', JStr ''stop'')]))) \<and>
   receive_from_signalwire
     [Frame (Json (JObj [(''event'', JStr ''stop'')])),
      Frame (Json (JObj [(''event'', JStr ''media''), (''media'', JObj [(''payload'', JStr ''QUJD'')])]))]
     ((new_bridge (default_config ''k''))
        \<lparr>openai_client := snd (connect True (new_client (default_config ''k'')))\<rparr>) =
   (Some (Inr ()),
    (new_bridge (default_config ''k''))
        \<lparr>openai_client := (snd (connect True (new_client (default_config ''k''))))
           \<lparr>sent := [session_update (default_config ''k''), commit_message,
                     response_create_message]\<rparr>\<rparr>,
    [Frame (Json (JObj [(''event'', JStr ''media''), (''media'', JObj [(''payload'', JStr ''QUJD'')])]))])"
  using stop_event_exits
    [of "Frame (Json (JObj [(''event'', JStr ''stop'')]))"
       "[Frame (Json (JObj [(''event'', JStr ''media''), (''media'', JObj [(''payload'', JStr ''QUJD'')])]))]"
       "(new_bridge (default_config ''k''))
        \<lparr>openai_client := snd (connect True (new_client (default_config ''k'')))\<rparr>"]
  by (simp add: get_or_def py_or_def lookup_def connect_def send_json_def new_client_def
      is_connected_def new_bridge_def commit_message_def response_create_message_def)

text \<open>
  C5 as stated fails: the AI service closes its connection before the call starts, the
  telephony peer sends \<^verbatim>\<open>stop\<close>, and \<^verbatim>\<open>run\<close> raises the not-connected error with neither
  a commit nor a response request sent (only the \<^verbatim>\<open>session.update\<close> of \<^verbatim>\<open>connect\<close>).
\<close>

theorem stop_after_peer_close_counterexample:
  "fst (run True True
          [AiCloses True, SwArrives (Frame (Json (JObj [(''event'', JStr ''stop'')]))), RunReceiver]
          (new_bridge (default_config ''k''))) = Some (Inl NotConnected) \<and>
   receiver (snd (run True True
          [AiCloses True, SwArrives (Frame (Json (JObj [(''event'', JStr ''stop'')]))), RunReceiver]
          (new_bridge (default_config ''k'')))) = Failed NotConnected \<and>
   sent (openai_client (bridge (snd (run True True
          [AiCloses True, SwArrives (Frame (Json (JObj [(''event'', JStr ''stop'')]))), RunReceiver]
          (new_bridge (default_config ''k'')))))) =
     [JObj [(''type'', JStr ''session.update''), (''session'', JObj [(''voice'', JStr ''verse'')])]]"
  by (simp add: run_unfold)

text \<open>
  C6, amended. Every \<^verbatim>\<open>start\<close> event with a non-empty stream identifier under
  \<^verbatim>\<open>streamId\<close> or \<^verbatim>\<open>stream_id\<close> makes the session ready with that identifier and sends
  exactly one \<^verbatim>\<open>ready\<close> frame; the inbound loop sends nothing else to the telephony peer,
  so over a call it sends as many \<^verbatim>\<open>ready\<close> frames as it reads such events.
\<close>

theorem start_sends_ready_each_time:
  "(start_with_id (Frame (Json (JObj payload))) \<longrightarrow>
      receive_iteration (Frame (Json (JObj payload))) b =
        (Inr Continue,
         b\<lparr>stream_id := get_or ''streamId'' ''stream_id'' payload,
           sw_sent := sw_sent b @ [JObj [(''event'', JStr ''ready'')]],
           ready := True\<rparr>)) \<and>
   sw_sent (fst (snd (receive_from_signalwire rs b))) =
     sw_sent b @
     replicate
       (length (filter start_with_id (consumed rs (snd (snd (receive_from_signalwire rs b))))))
       (JObj [(''event'', JStr ''ready'')])"
  using loop_sw_sent [of rs b] receive_iteration_start [of payload b]
  by (simp add: ready_frame_def Let_def)

theorem start_sends_ready_each_time_witness:
  "start_with_id (Frame (Json (JObj [(''type'', JStr ''start''), (''stream_id'', JStr ''s1'')]))) \<and>
   receive_iteration (Frame (Json (JObj [(''type'', JStr ''start''), (''stream_id'', JStr ''s1'')])))
     (new_bridge (default_config ''k'')) =
     (Inr Continue,
      (new_bridge (default_config ''k''))
        \<lparr>stream_id := JStr ''s1'', sw_sent := [JObj [(''event'', JStr ''ready'')]], ready := True\<rparr>)"
  using start_sends_ready_each_time
    [of "[(''type'', JStr ''start''), (''stream_id'', JStr ''s1'')]"
        "new_bridge (default_config ''k'')" "[]"]
  by (simp add: get_or_def py_or_def lookup_def new_bridge_def)

text \<open>
  C6 as stated fails: a call with two \<^verbatim>\<open>start\<close> events ends without error and has sent two
  \<^verbatim>\<open>ready\<close> frames.
\<close>

theorem two_starts_two_ready_frames_counterexample:
  "fst (run True True
     [SwArrives (Frame (Json (JObj [(''event'', JStr ''start''), (''streamId'', JStr ''s1'')]))),
      SwArrives (Frame (Json (JObj [(''event'', JStr ''start''), (''streamId'', JStr ''s1'')]))),
      SwArrives (Frame (Json (JObj [(''event'', JStr ''stop'')]))),
      RunReceiver, RunReceiver, RunReceiver]
     (new_bridge (default_config ''k''))) = Some (Inr ()) \<and>
   sw_sent (bridge (snd (run True True
     [SwArrives (Frame (Json (JObj [(''event'', JStr ''start''), (''streamId'', JStr ''s1'')]))),
      SwArrives (Frame (Json (JObj [(''event'', JStr ''start''), (''streamId'', JStr ''s1'')]))),
      SwArrives (Frame (Json (JObj [(''event'', JStr ''stop'')]))),
      RunReceiver, RunReceiver, RunReceiver]
     (new_bridge (default_config ''k''))))) =
     [JObj [(''event'', JStr ''ready'')], JObj [(''event'', JStr ''ready'')]]"
  by (simp add: run_unfold ready_frame_def)

section \<open>Who writes the session\<close>

text \<open>
  C7, amended. A \<^verbatim>\<open>start\<close> event without a stream identifier sends nothing, leaves
  readiness and the client as they were, and the loop goes on. The stream identifier and
  readiness change only when the inbound loop handles a \<^verbatim>\<open>start\<close> event (every one of
  them, not only the first): no other step of either loop or of the environment changes
  them. Readiness, once set, stays set.
\<close>

theorem session_written_at_start_only:
  "(start_event r \<and> \<not> start_with_id r \<longrightarrow>
      fst (receive_iteration r b) = Inr Continue \<and>
      ready (snd (receive_iteration r b)) = ready b \<and>
      sw_sent (snd (receive_iteration r b)) = sw_sent b \<and>
      openai_client (snd (receive_iteration r b)) = openai_client b) \<and>
   (\<not> handles_start a s \<longrightarrow>
      stream_id (bridge (step a s)) = stream_id (bridge s) \<and>
      ready (bridge (step a s)) = ready (bridge s)) \<and>
   (ready (bridge s) \<longrightarrow> ready (bridge (step a s)))"
proof (intro conjI impI)
  assume h: "start_event r \<and> \<not> start_with_id r"
  then obtain payload where r: "r = Frame (Json (JObj payload))"
    by (cases r rule: start_event.cases) simp_all
  with h have ev: "get_or ''event'' ''type'' payload = JStr ''start''"
    and nid: "\<not> truthy (get_or ''streamId'' ''stream_id'' payload)" by simp_all
  from receive_iteration_start [OF ev, of b] nid r
  have it: "receive_iteration r b = (Inr Continue, b\<lparr>stream_id := get_or ''streamId'' ''stream_id'' payload\<rparr>)"
    by (simp add: Let_def)
  from it show "fst (receive_iteration r b) = Inr Continue" by simp
  from it show "ready (snd (receive_iteration r b)) = ready b" by simp
  from it show "sw_sent (snd (receive_iteration r b)) = sw_sent b" by simp
  from it show "openai_client (snd (receive_iteration r b)) = openai_client b" by simp
next
  assume "\<not> handles_start a s"
  then show "stream_id (bridge (step a s)) = stream_id (bridge s)"
    and "ready (bridge (step a s)) = ready (bridge s)"
    by (simp_all add: step_session)
next
  assume "ready (bridge s)"
  then show "ready (bridge (step a s))" by (rule step_ready_kept)
qed

theorem session_written_at_start_only_witness:
  "start_event (Frame (Json (JObj [(''event'', JStr ''start'')]))) \<and>
   \<not> start_with_id (Frame (Json (JObj [(''event'', JStr ''start'')]))) \<and>
   fst (receive_iteration (Frame (Json (JObj [(''event'', JStr ''start'')])))
          (new_bridge (default_config ''k''))) = Inr Continue \<and>
   ready (snd (receive_iteration (Frame (Json (JObj [(''event'', JStr ''start'')])))
          (new_bridge (default_config ''k'')))) = False \<and>
   sw_sent (snd (receive_iteration (Frame (Json (JObj [(''event'', JStr ''start'')])))
          (new_bridge (default_config ''k'')))) = [] \<and>
   \<not> handles_start RunForwarder
        (create_tasks ((new_bridge (default_config ''k''))\<lparr>stream_id := JStr ''s1'', ready := True\<rparr>)) \<and>
   stream_id (bridge (step RunForwarder
        (create_tasks ((new_bridge (default_config ''k''))\<lparr>stream_id := JStr ''s1'', ready := True\<rparr>)))) =
     JStr ''s1'' \<and>
   ready (bridge (step RunForwarder
        (create_tasks ((new_bridge (default_config ''k''))\<lparr>stream_id := JStr ''s1'', ready := True\<rparr>))))"
  using session_written_at_start_only
    [of "Frame (Json (JObj [(''event'', JStr ''start'')]))" "new_bridge (default_config ''k'')"
        RunForwarder
        "create_tasks ((new_bridge (default_config ''k''))\<lparr>stream_id := JStr ''s1'', ready := True\<rparr>)"]
  by (simp add: handles_start_def create_tasks_def new_bridge_def get_or_def py_or_def lookup_def)

text \<open>
  C7 as stated fails: after a \<^verbatim>\<open>start\<close> with identifier \<^verbatim>\<open>s1\<close>, a \<^verbatim>\<open>start\<close> without one
  leaves the session ready with its stream identifier reset to \<^verbatim>\<open>None\<close>, and a \<^verbatim>\<open>start\<close>
  with identifier \<^verbatim>\<open>s2\<close> writes the identifier a second time.
\<close>

theorem start_without_id_resets_stream_id_counterexample:
  "stream_id (fst (snd (receive_from_signalwire
      [Frame (Json (JObj [(''event'', JStr ''start''), (''streamId'', JStr ''s1'')]))]
      (new_bridge (default_config ''k''))))) = JStr ''s1'' \<and>
   stream_id (fst (snd (receive_from_signalwire
      [Frame (Json (JObj [(''event'', JStr ''start''), (''streamId'', JStr ''s1'')])),
       Frame (Json (JObj [(''event'', JStr ''start'')]))]
      (new_bridge (default_config ''k''))))) = JNull \<and>
   ready (fst (snd (receive_from_signalwire
      [Frame (Json (JObj [(''event'', JStr ''start''), (''streamId'', JStr ''s1'')])),
       Frame (Json (JObj [(''event'', JStr ''start'')]))]
      (new_bridge (default_config ''k''))))) \<and>
   stream_id (fst (snd (receive_from_signalwire
      [Frame (Json (JObj [(''event'', JStr ''start''), (''streamId'', JStr ''s1'')])),
       Frame (Json (JObj [(''event'', JStr ''start''), (''streamId'', JStr ''s2'')]))]
      (new_bridge (default_config ''k''))))) = JStr ''s2''"
  by (simp add: run_unfold)

section \<open>Nothing goes out before the session is ready\<close>

lemma receiver_step_position [simp]: "position (receiver_step s) = position s"
  by (auto simp add: receiver_step_def split: list.splits sum.splits ctl.splits prod.splits)

lemma receiver_step_started: "started (receiver s) \<Longrightarrow> started (receiver (receiver_step s))"
  by (auto simp add: receiver_step_def split: list.splits sum.splits ctl.splits prod.splits)

lemma receiver_step_forwarder [simp]: "forwarder (receiver_step s) = forwarder s"
  by (auto simp add: receiver_step_def split: list.splits sum.splits ctl.splits prod.splits)

lemma forwarder_step_started: "started (forwarder s) \<Longrightarrow> started (forwarder (forwarder_step s))"
  by (auto simp add: forwarder_step_def split: prod.splits anext.splits sum.splits)

lemma forwarder_step_receiver [simp]: "receiver (forwarder_step s) = receiver s"
  by (auto simp add: forwarder_step_def split: prod.splits anext.splits sum.splits)

lemma step_started:
  "started (receiver s) \<and> started (forwarder s) \<Longrightarrow>
     started (receiver (step a s)) \<and> started (forwarder (step a s))"
  by (cases a) (simp_all add: receiver_step_started forwarder_step_started)

lemma exec_started:
  "started (receiver s) \<and> started (forwarder s) \<Longrightarrow>
     started (receiver (exec as s)) \<and> started (forwarder (exec as s))"
proof (induction as arbitrary: s)
  case Nil
  then show ?case by simp
next
  case (Cons a as)
  from Cons.IH [OF step_started [OF Cons.prems]] show ?case by simp
qed

lemma create_tasks_started:
  "started (receiver (create_tasks b)) \<and> started (forwarder (create_tasks b))"
  by (simp add: create_tasks_def)

lemma forwarder_step_blocked:
  "position s = WaitReady \<Longrightarrow> \<not> ready (bridge s) \<Longrightarrow> started (forwarder s) \<Longrightarrow>
     forwarder_step s = s"
  by (cases "forwarder s") (simp_all add: forwarder_step_def)

lemma ready_gate_start: "\<not> ready b \<Longrightarrow> sw_sent b = [] \<Longrightarrow> ready_gate (create_tasks b)"
  by (simp add: ready_gate_def create_tasks_def)

lemma ready_gate_receiver: "ready_gate s \<Longrightarrow> ready_gate (receiver_step s)"
  by (auto simp add: ready_gate_def receiver_step_bridge receive_iteration_sw_sent
      receive_iteration_ready)

lemma ready_gate_forwarder:
  assumes "ready_gate s"
  shows "ready_gate (forwarder_step s)"
proof (cases "ready (bridge s)")
  case False
  with assms have "position s = WaitReady" by (simp add: ready_gate_def)
  with False assms show ?thesis by (simp add: forwarder_step_def ready_gate_def)
next
  case True
  with assms have sent: "sw_sent (bridge s) \<noteq> []" "hd (sw_sent (bridge s)) = ready_frame"
    by (auto simp add: ready_gate_def)
  from forwarder_step_bridge [of s] forward_event_effect
  have "bridge (forwarder_step s) = bridge s \<or>
        (\<exists>f. bridge (forwarder_step s) = (bridge s)\<lparr>sw_sent := sw_sent (bridge s) @ [f]\<rparr>)"
    by metis
  with True sent show ?thesis by (auto simp add: ready_gate_def)
qed

lemma ready_gate_step:
  assumes "ready_gate s"
  shows "ready_gate (step a s)"
proof (cases a)
  case RunReceiver
  with assms show ?thesis by (simp add: ready_gate_receiver)
next
  case RunForwarder
  with assms show ?thesis by (simp add: ready_gate_forwarder)
qed (use assms in \<open>auto simp add: ready_gate_def\<close>)

lemma ready_gate_exec: "ready_gate s \<Longrightarrow> ready_gate (exec as s)"
  by (induction as arbitrary: s) (simp_all add: ready_gate_step)

section \<open>What the outbound loop forwards\<close>

lemma audio_delta_event:
  assumes "audio_delta m = Some a"
  obtains event where "m = Json (JObj event)"
    and "forward_event (JObj event) b =
      (if truthy (stream_id b)
       then (Inr (), b\<lparr>sw_sent := sw_sent b @ [media_frame (stream_id b) a]\<rparr>)
       else (Inr (), b))"
proof -
  from assms obtain event where m: "m = Json (JObj event)"
    by (cases m rule: audio_delta.cases) simp_all
  from assms m have ty: "lookup event ''type'' = JStr ''response.output_audio.delta''"
    by (simp split: if_splits)
  from assms m ty obtain delta where
    d: "map_of event ''delta'' = Some (JObj delta)" "truthy (lookup delta ''audio'')"
       "a = lookup delta ''audio''"
    by (auto split: option.splits json.splits if_splits)
  from ty d have "forward_event (JObj event) b =
      (if truthy (stream_id b)
       then (Inr (), b\<lparr>sw_sent := sw_sent b @ [media_frame (stream_id b) a]\<rparr>)
       else (Inr (), b))"
    by (simp add: forward_event_def send_audio_to_signalwire_def send_signalwire_def)
  with m that show ?thesis by blast
qed

lemma forwarder_step_delta:
  assumes run: "forwarder s = Running" and rdy: "ready (bridge s)"
    and sid: "truthy (stream_id (bridge s))"
    and pos: "position s \<noteq> Iterate Exhausted"
      "position s \<noteq> Iterate Streaming \<longrightarrow> is_connected (openai_client (bridge s))"
    and inbox: "ai_inbox s = m # rest"
    and a: "audio_delta m = Some a"
  shows "forwarder_step s =
     s\<lparr>bridge := (bridge s)\<lparr>sw_sent := sw_sent (bridge s) @
          [media_frame (stream_id (bridge s)) a]\<rparr>,
       ai_inbox := rest, position := Iterate Streaming\<rparr>"
proof -
  from a obtain event where m: "m = Json (JObj event)"
    and ev: "forward_event (JObj event) (bridge s) =
      (if truthy (stream_id (bridge s))
       then (Inr (), (bridge s)\<lparr>sw_sent := sw_sent (bridge s) @
          [media_frame (stream_id (bridge s)) a]\<rparr>)
       else (Inr (), bridge s))"
    by (rule audio_delta_event)
  have nx: "responses (openai_client (bridge s))
      (case position s of WaitReady \<Rightarrow> NotStarted | Iterate g \<Rightarrow> g) (ai_inbox s) (ai_ended s) =
      (Yield (JObj event), Streaming, rest)"
    using pos inbox m by (cases "position s") (auto simp add: responses_def)
  from run rdy sid ev nx show ?thesis by (simp add: forwarder_step_def)
qed

text \<open>
  C3. The outbound loop is running, the session is ready with a stream identifier
  \<open>sid\<close>, and the connection holds audio delta events: messages whose \<^verbatim>\<open>type\<close> is
  \<^verbatim>\<open>response.output_audio.delta\<close> and whose \<^verbatim>\<open>delta\<close> carries a non-empty \<^verbatim>\<open>audio\<close>, whatever
  the order of their keys and whatever else they carry. Then one turn of the loop per
  event sends exactly the frames \<^verbatim>\<open>{"event":"media","streamId":sid,"media":{"payload":a}}\<close>
  to the telephony peer, one per delta and in the order of the deltas, and consumes
  exactly those events. The event \<^verbatim>\<open>{"type":"response.output_audio.delta","delta":{"audio":x}}\<close>
  is such an event when \<open>x\<close> is a non-empty string.
\<close>

theorem deltas_forwarded_in_order:
  assumes "forwarder s = Running" and "ready (bridge s)"
    and "stream_id (bridge s) = sid" and "truthy sid"
    and "position s \<noteq> Iterate Exhausted"
    and "position s \<noteq> Iterate Streaming \<longrightarrow> is_connected (openai_client (bridge s))"
    and "list_all2 (\<lambda>m a. audio_delta m = Some a) ms as"
    and "ai_inbox s = ms @ rest"
  shows "sw_sent (bridge (exec (replicate (length ms) RunForwarder) s)) =
           sw_sent (bridge s) @
           map (\<lambda>a. JObj [(''event'', JStr ''media''), (''streamId'', sid),
                            (''media'', JObj [(''payload'', a)])]) as \<and>
         ai_inbox (exec (replicate (length ms) RunForwarder) s) = rest \<and>
         forwarder (exec (replicate (length ms) RunForwarder) s) = Running \<and>
         audio_delta (Json (JObj [(''type'', JStr ''response.output_audio.delta''),
                                  (''delta'', JObj [(''audio'', JStr x)])])) =
           (if x = [] then None else Some (JStr x))"
proof -
  have "sw_sent (bridge (exec (replicate (length ms) RunForwarder) s)) =
           sw_sent (bridge s) @ map (media_frame sid) as \<and>
         ai_inbox (exec (replicate (length ms) RunForwarder) s) = rest \<and>
         forwarder (exec (replicate (length ms) RunForwarder) s) = Running"
    using assms
  proof (induction ms arbitrary: as s)
    case Nil
    then show ?case by simp
  next
    case (Cons m ms)
    from Cons.prems(7) obtain a as' where as: "as = a # as'" and a: "audio_delta m = Some a"
      and rest: "list_all2 (\<lambda>m a. audio_delta m = Some a) ms as'"
      by (auto simp add: list_all2_Cons1)
    let ?s1 = "forwarder_step s"
    from Cons.prems have sid: "truthy (stream_id (bridge s))"
      and inbox: "ai_inbox s = m # (ms @ rest)" by simp_all
    from forwarder_step_delta [OF Cons.prems(1,2) sid Cons.prems(5,6) inbox a] Cons.prems(3)
    have s1: "?s1 =
       s\<lparr>bridge := (bridge s)\<lparr>sw_sent := sw_sent (bridge s) @ [media_frame sid a]\<rparr>,
         ai_inbox := ms @ rest, position := Iterate Streaming\<rparr>" by simp
    have "sw_sent (bridge (exec (replicate (length ms) RunForwarder) ?s1)) =
             sw_sent (bridge ?s1) @ map (media_frame sid) as' \<and>
           ai_inbox (exec (replicate (length ms) RunForwarder) ?s1) = rest \<and>
           forwarder (exec (replicate (length ms) RunForwarder) ?s1) = Running"
      using Cons.prems(1-4) rest by (intro Cons.IH) (simp_all add: s1)
    with as show ?case by (simp add: s1)
  qed
  then show ?thesis by (simp add: media_frame_def lookup_def)
qed

theorem deltas_forwarded_in_order_witness:
  "list_all2 (\<lambda>m a. audio_delta m = Some a)
     [Json (JObj [(''type'', JStr ''response.output_audio.delta''),
                  (''delta'', JObj [(''audio'', JStr ''ZFJD'')])]),
      Json (JObj [(''event_id'', JStr ''e2''),
                  (''delta'', JObj [(''audio'', JStr ''QUJD'')]),
                  (''type'', JStr ''response.output_audio.delta'')])]
     [JStr ''ZFJD'', JStr ''QUJD''] \<and>
   sw_sent (bridge (exec (replicate 2 RunForwarder)
     ((create_tasks
        ((new_bridge (default_config ''k''))
           \<lparr>openai_client := snd (connect True (new_client (default_config ''k''))),
             stream_id := JStr ''s1'', ready := True,
             sw_sent := [JObj [(''event'', JStr ''ready'')]]\<rparr>))
       \<lparr>ai_inbox :=
          [Json (JObj [(''type'', JStr ''response.output_audio.delta''),
                       (''delta'', JObj [(''audio'', JStr ''ZFJD'')])]),
           Json (JObj [(''event_id'', JStr ''e2''),
                       (''delta'', JObj [(''audio'', JStr ''QUJD'')]),
                       (''type'', JStr ''response.output_audio.delta'')])]\<rparr>))) =
   [JObj [(''event'', JStr ''ready'')],
    JObj [(''event'', JStr ''media''), (''streamId'', JStr ''s1''),
          (''media'', JObj [(''payload'', JStr ''ZFJD'')])],
    JObj [(''event'', JStr ''media''), (''streamId'', JStr ''s1''),
          (''media'', JObj [(''payload'', JStr ''QUJD'')])]]"
  using deltas_forwarded_in_order
    [of "(create_tasks
        ((new_bridge (default_config ''k''))
           \<lparr>openai_client := snd (connect True (new_client (default_config ''k''))),
             stream_id := JStr ''s1'', ready := True,
             sw_sent := [JObj [(''event'', JStr ''ready'')]]\<rparr>))
       \<lparr>ai_inbox :=
          [Json (JObj [(''type'', JStr ''response.output_audio.delta''),
                       (''delta'', JObj [(''audio'', JStr ''ZFJD'')])]),
           Json (JObj [(''event_id'', JStr ''e2''),
                       (''delta'', JObj [(''audio'', JStr ''QUJD'')]),
                       (''type'', JStr ''response.output_audio.delta'')])]\<rparr>"
        "JStr ''s1''"
        "[Json (JObj [(''type'', JStr ''response.output_audio.delta''),
                       (''delta'', JObj [(''audio'', JStr ''ZFJD'')])]),
           Json (JObj [(''event_id'', JStr ''e2''),
                       (''delta'', JObj [(''audio'', JStr ''QUJD'')]),
                       (''type'', JStr ''response.output_audio.delta'')])]"
        "[JStr ''ZFJD'', JStr ''QUJD'']" "[]" "''ZFJD''"]
  by (simp add: create_tasks_def new_bridge_def connect_def send_json_def new_client_def
      is_connected_def lookup_def numeral_2_eq_2)

section \<open>Audio that arrives before the session is ready\<close>

text \<open>
  C1, amended. In every state of a run from a fresh session: while the session is not
  ready, nothing at all has been sent to the telephony peer, and the outbound loop is
  suspended: a step of it changes nothing, so an AI event that arrives then is neither
  forwarded nor dropped but waits in the connection. Whenever something has been sent,
  the session is ready and the first frame sent is the \<^verbatim>\<open>ready\<close> acknowledgement. When
  the inbound loop then handles a \<^verbatim>\<open>start\<close> event with a stream identifier and the client
  is still connected, the next turn of the outbound loop reads the audio delta at the
  head of the connection and sends it as a \<^verbatim>\<open>media\<close> frame, right after the \<^verbatim>\<open>ready\<close> frame.
\<close>

theorem no_frame_before_ready:
  assumes "\<not> ready b" and "sw_sent b = []"
  shows "(\<not> ready (bridge (exec as (create_tasks b))) \<longrightarrow>
            sw_sent (bridge (exec as (create_tasks b))) = [] \<and>
            forwarder_step (exec as (create_tasks b)) = exec as (create_tasks b) \<and>
            (ai_ended (exec as (create_tasks b)) = None \<longrightarrow>
               ai_inbox (forwarder_step (step (AiArrives m) (exec as (create_tasks b)))) =
                 ai_inbox (exec as (create_tasks b)) @ [m])) \<and>
         (sw_sent (bridge (exec as (create_tasks b))) \<noteq> [] \<longrightarrow>
            ready (bridge (exec as (create_tasks b))) \<and>
            hd (sw_sent (bridge (exec as (create_tasks b)))) = JObj [(''event'', JStr ''ready'')]) \<and>
         (\<not> ready (bridge (exec as (create_tasks b))) \<and>
          receiver (exec as (create_tasks b)) = Running \<and>
          forwarder (exec as (create_tasks b)) = Running \<and>
          sw_inbox (exec as (create_tasks b)) \<noteq> [] \<and>
          start_with_id (hd (sw_inbox (exec as (create_tasks b)))) \<and>
          is_connected (openai_client (bridge (exec as (create_tasks b)))) \<and>
          ai_inbox (exec as (create_tasks b)) \<noteq> [] \<and>
          audio_delta (hd (ai_inbox (exec as (create_tasks b)))) = Some a \<longrightarrow>
            sw_sent (bridge (exec [RunReceiver, RunForwarder] (exec as (create_tasks b)))) =
              [JObj [(''event'', JStr ''ready'')],
               JObj [(''event'', JStr ''media''),
                     (''streamId'', stream_id (bridge (step RunReceiver (exec as (create_tasks b))))),
                     (''media'', JObj [(''payload'', a)])]])"
proof -
  define s where "s = exec as (create_tasks b)"
  from assms have gate: "ready_gate s"
    unfolding s_def by (intro ready_gate_exec ready_gate_start)
  have live: "started (forwarder s)"
    unfolding s_def using exec_started [OF create_tasks_started] by simp
  have "\<not> ready (bridge s) \<longrightarrow>
          sw_sent (bridge s) = [] \<and> forwarder_step s = s \<and>
          (ai_ended s = None \<longrightarrow> ai_inbox (forwarder_step (step (AiArrives m) s)) = ai_inbox s @ [m])"
  proof
    assume nr: "\<not> ready (bridge s)"
    with gate have w: "position s = WaitReady" and e: "sw_sent (bridge s) = []"
      by (auto simp add: ready_gate_def)
    have "forwarder_step s = s" by (rule forwarder_step_blocked [OF w nr live])
    moreover from nr w live have "ai_ended s = None \<longrightarrow>
        ai_inbox (forwarder_step (step (AiArrives m) s)) = ai_inbox s @ [m]"
      by (cases "forwarder s") (simp_all add: forwarder_step_def)
    ultimately show "sw_sent (bridge s) = [] \<and> forwarder_step s = s \<and>
          (ai_ended s = None \<longrightarrow> ai_inbox (forwarder_step (step (AiArrives m) s)) = ai_inbox s @ [m])"
      using e by simp
  qed
  moreover from gate have "sw_sent (bridge s) \<noteq> [] \<longrightarrow>
      ready (bridge s) \<and> hd (sw_sent (bridge s)) = JObj [(''event'', JStr ''ready'')]"
    by (auto simp add: ready_gate_def ready_frame_def)
  moreover have "\<not> ready (bridge s) \<and> receiver s = Running \<and> forwarder s = Running \<and>
      sw_inbox s \<noteq> [] \<and> start_with_id (hd (sw_inbox s)) \<and>
      is_connected (openai_client (bridge s)) \<and>
      ai_inbox s \<noteq> [] \<and> audio_delta (hd (ai_inbox s)) = Some a \<longrightarrow>
      sw_sent (bridge (exec [RunReceiver, RunForwarder] s)) =
        [JObj [(''event'', JStr ''ready'')],
         JObj [(''event'', JStr ''media''), (''streamId'', stream_id (bridge (step RunReceiver s))),
               (''media'', JObj [(''payload'', a)])]]"
  proof
    assume h: "\<not> ready (bridge s) \<and> receiver s = Running \<and> forwarder s = Running \<and>
      sw_inbox s \<noteq> [] \<and> start_with_id (hd (sw_inbox s)) \<and>
      is_connected (openai_client (bridge s)) \<and>
      ai_inbox s \<noteq> [] \<and> audio_delta (hd (ai_inbox s)) = Some a"
    with gate have w: "position s = WaitReady" and e: "sw_sent (bridge s) = []"
      by (auto simp add: ready_gate_def)
    from h obtain r rs where inb: "sw_inbox s = r # rs" and st: "start_with_id r"
      by (cases "sw_inbox s") auto
    from st obtain payload where r: "r = Frame (Json (JObj payload))"
      by (cases r rule: start_with_id.cases) simp_all
    with st have ev: "get_or ''event'' ''type'' payload = JStr ''start''"
      and id: "truthy (get_or ''streamId'' ''stream_id'' payload)" by simp_all
    let ?b1 = "(bridge s)\<lparr>stream_id := get_or ''streamId'' ''stream_id'' payload,
        sw_sent := [ready_frame], ready := True\<rparr>"
    from receive_iteration_start [OF ev, of "bridge s"] id e
    have it: "receive_iteration r (bridge s) = (Inr Continue, ?b1)"
      by (simp add: r Let_def)
    from h inb it have s1: "receiver_step s = s\<lparr>bridge := ?b1, sw_inbox := rs\<rparr>"
      by (simp add: receiver_step_def)
    from h obtain m' ms where ai: "ai_inbox s = m' # ms" and d: "audio_delta m' = Some a"
      by (cases "ai_inbox s") auto
    let ?s1 = "s\<lparr>bridge := ?b1, sw_inbox := rs\<rparr>"
    have "forwarder_step ?s1 =
      ?s1\<lparr>bridge := (bridge ?s1)\<lparr>sw_sent := sw_sent (bridge ?s1) @
          [media_frame (stream_id (bridge ?s1)) a]\<rparr>,
       ai_inbox := ms, position := Iterate Streaming\<rparr>"
      using h w id ai d by (intro forwarder_step_delta) simp_all
    with s1 show "sw_sent (bridge (exec [RunReceiver, RunForwarder] s)) =
        [JObj [(''event'', JStr ''ready'')],
         JObj [(''event'', JStr ''media''), (''streamId'', stream_id (bridge (step RunReceiver s))),
               (''media'', JObj [(''payload'', a)])]]"
      by (simp add: ready_frame_def media_frame_def)
  qed
  ultimately show ?thesis unfolding s_def by blast
qed

theorem no_frame_before_ready_witness:
  "\<not> ready ((new_bridge (default_config ''k''))
        \<lparr>openai_client := snd (connect True (new_client (default_config ''k'')))\<rparr>) \<and>
   sw_sent ((new_bridge (default_config ''k''))
        \<lparr>openai_client := snd (connect True (new_client (default_config ''k'')))\<rparr>) = [] \<and>
   \<not> ready (bridge (exec
     [AiArrives (Json (JObj [(''type'', JStr ''response.output_audio.delta''),
                             (''delta'', JObj [(''audio'', JStr ''ZFJD'')])])),
      RunForwarder,
      SwArrives (Frame (Json (JObj [(''event'', JStr ''start''), (''streamId'', JStr ''s1'')])))]
     (create_tasks ((new_bridge (default_config ''k''))
        \<lparr>openai_client := snd (connect True (new_client (default_config ''k'')))\<rparr>)))) \<and>
   sw_sent (bridge (exec
     [AiArrives (Json (JObj [(''type'', JStr ''response.output_audio.delta''),
                             (''delta'', JObj [(''audio'', JStr ''ZFJD'')])])),
      RunForwarder,
      SwArrives (Frame (Json (JObj [(''event'', JStr ''start''), (''streamId'', JStr ''s1'')])))]
     (create_tasks ((new_bridge (default_config ''k''))
        \<lparr>openai_client := snd (connect True (new_client (default_config ''k'')))\<rparr>)))) = [] \<and>
   ai_inbox (exec
     [AiArrives (Json (JObj [(''type'', JStr ''response.output_audio.delta''),
                             (''delta'', JObj [(''audio'', JStr ''ZFJD'')])])),
      RunForwarder,
      SwArrives (Frame (Json (JObj [(''event'', JStr ''start''), (''streamId'', JStr ''s1'')])))]
     (create_tasks ((new_bridge (default_config ''k''))
        \<lparr>openai_client := snd (connect True (new_client (default_config ''k'')))\<rparr>))) =
     [Json (JObj [(''type'', JStr ''response.output_audio.delta''),
                             (''delta'', JObj [(''audio'', JStr ''ZFJD'')])])] \<and>
   sw_sent (bridge (exec [RunReceiver, RunForwarder] (exec
     [AiArrives (Json (JObj [(''type'', JStr ''response.output_audio.delta''),
                             (''delta'', JObj [(''audio'', JStr ''ZFJD'')])])),
      RunForwarder,
      SwArrives (Frame (Json (JObj [(''event'', JStr ''start''), (''streamId'', JStr ''s1'')])))]
     (create_tasks ((new_bridge (default_config ''k''))
        \<lparr>openai_client := snd (connect True (new_client (default_config ''k'')))\<rparr>))))) =
     [JObj [(''event'', JStr ''ready'')],
      JObj [(''event'', JStr ''media''), (''streamId'', JStr ''s1''),
            (''media'', JObj [(''payload'', JStr ''ZFJD'')])]]"
  using no_frame_before_ready
    [of "((new_bridge (default_config ''k''))
        \<lparr>openai_client := snd (connect True (new_client (default_config ''k'')))\<rparr>)"
        "[AiArrives (Json (JObj [(''type'', JStr ''response.output_audio.delta''),
                             (''delta'', JObj [(''audio'', JStr ''ZFJD'')])])),
      RunForwarder,
      SwArrives (Frame (Json (JObj [(''event'', JStr ''start''), (''streamId'', JStr ''s1'')])))]" NotJson "JStr ''ZFJD''"]
  by (simp add: run_unfold)

text \<open>
  C1 as stated fails in its second half: an audio delta that arrives while the session is
  not ready is not dropped. It is the first event the outbound loop reads after the
  \<^verbatim>\<open>start\<close> event, and it goes out as a \<^verbatim>\<open>media\<close> frame.
\<close>

theorem early_delta_delivered_counterexample:
  "fst (run True True
     [AiArrives (Json (JObj [(''type'', JStr ''response.output_audio.delta''),
                             (''delta'', JObj [(''audio'', JStr ''ZFJD'')])]))]
     (new_bridge (default_config ''k''))) = None \<and>
   ready (bridge (snd (run True True
     [AiArrives (Json (JObj [(''type'', JStr ''response.output_audio.delta''),
                             (''delta'', JObj [(''audio'', JStr ''ZFJD'')])]))]
     (new_bridge (default_config ''k''))))) = False \<and>
   sw_sent (bridge (snd (run True True
     [AiArrives (Json (JObj [(''type'', JStr ''response.output_audio.delta''),
                             (''delta'', JObj [(''audio'', JStr ''ZFJD'')])])),
      RunForwarder,
      SwArrives (Frame (Json (JObj [(''event'', JStr ''start''), (''streamId'', JStr ''s1'')]))),
      RunReceiver,
      RunForwarder]
     (new_bridge (default_config ''k''))))) =
     [JObj [(''event'', JStr ''ready'')],
      JObj [(''event'', JStr ''media''), (''streamId'', JStr ''s1''),
            (''media'', JObj [(''payload'', JStr ''ZFJD'')])]]"
  by (simp add: run_unfold ready_frame_def media_frame_def)

section \<open>The end of a run\<close>

lemma receiver_step_close_calls:
  "close_calls (openai_client (bridge (receiver_step s))) = close_calls (openai_client (bridge s))"
  by (simp add: receiver_step_bridge receive_iteration_upstream)

lemma forwarder_step_close_calls:
  "close_calls (openai_client (bridge (forwarder_step s))) = close_calls (openai_client (bridge s))"
  using forwarder_step_bridge [of s] by (auto simp add: forward_event_session)

lemma step_close_calls:
  "close_calls (openai_client (bridge (step a s))) = close_calls (openai_client (bridge s))"
  by (cases a)
    (simp_all add: receiver_step_close_calls forwarder_step_close_calls peer_closes_def
      peer_closing_def)

lemma exec_close_calls:
  "close_calls (openai_client (bridge (exec as s))) = close_calls (openai_client (bridge s))"
  by (induction as arbitrary: s) (simp_all add: step_close_calls)

lemma connect_close_calls: "close_calls (snd (connect ok c)) = close_calls c"
  by (cases c rule: connection_cases) (simp_all add: connect_def send_json_def is_connected_def)

lemma cancelled_task_is_idle:
  "receiver s \<noteq> Running \<Longrightarrow> bridge (receiver_step s) = bridge s \<and>
     sw_inbox (receiver_step s) = sw_inbox s \<and> ai_inbox (receiver_step s) = ai_inbox s"
  "forwarder s \<noteq> Running \<Longrightarrow> bridge (forwarder_step s) = bridge s \<and>
     sw_inbox (forwarder_step s) = sw_inbox s \<and> ai_inbox (forwarder_step s) = ai_inbox s"
  by (simp_all add: receiver_step_def forwarder_step_def)

text \<open>
  C2, amended. \<^verbatim>\<open>run\<close> has connected and at least one loop has completed when
  \<^verbatim>\<open>asyncio.wait\<close> returns. Then \<^verbatim>\<open>run\<close> returns or raises, and:
  \<^item> if one loop has completed and the other is pending, \<^verbatim>\<open>run\<close> raises the error of
    the completed loop if it failed and nothing if it finished cleanly, and it requests
    the cancellation of the pending loop;
  \<^item> if both loops have completed, nothing is cancelled and \<^verbatim>\<open>run\<close> raises the error of a
    failed loop, also when the other loop finished cleanly before it; if both failed, which
    error it raises depends on the order of the set \<^verbatim>\<open>done\<close>;
  \<^item> a loop whose cancellation was requested runs no further statement, but \<^verbatim>\<open>run\<close> does
    not wait for it: the loop has ended when \<^verbatim>\<open>run\<close> returns only if \<^verbatim>\<open>close\<close> had a
    connection to close; otherwise its cancellation is still pending;
  \<^item> the client's \<^verbatim>\<open>close\<close> has run once on the way out: the client holds no connection,
    and \<^verbatim>\<open>close()\<close> of the underlying websocket was called once if the client was still
    connected and not at all if the connection was already closed; nothing more has been
    sent to either peer.
\<close>

theorem run_after_wait:
  assumes conn: "connect handshake_ok (openai_client b) = (Inr (), c)"
    and s: "s = exec schedule (create_tasks (b\<lparr>accepted := True, openai_client := c\<rparr>))"
    and some: "receiver s \<noteq> Running \<or> forwarder s \<noteq> Running"
  shows "fst (run handshake_ok receiver_first schedule b) =
       Some (case receiver s of
               Failed e1 \<Rightarrow>
                 (case forwarder s of
                    Failed e2 \<Rightarrow> Inl (if receiver_first then e1 else e2)
                  | t2 \<Rightarrow> Inl e1)
             | t1 \<Rightarrow> (case forwarder s of Failed e2 \<Rightarrow> Inl e2 | t2 \<Rightarrow> Inr ())) \<and>
     receiver (snd (run handshake_ok receiver_first schedule b)) =
       (if receiver s \<noteq> Running then receiver s
        else if is_connected (openai_client (bridge s)) then Cancelled else Cancelling) \<and>
     forwarder (snd (run handshake_ok receiver_first schedule b)) =
       (if forwarder s \<noteq> Running then forwarder s
        else if is_connected (openai_client (bridge s)) then Cancelled else Cancelling) \<and>
     bridge (receiver_step (snd (run handshake_ok receiver_first schedule b))) =
       bridge (snd (run handshake_ok receiver_first schedule b)) \<and>
     bridge (forwarder_step (snd (run handshake_ok receiver_first schedule b))) =
       bridge (snd (run handshake_ok receiver_first schedule b)) \<and>
     openai_client (bridge (snd (run handshake_ok receiver_first schedule b))) =
       snd (close (openai_client (bridge s))) \<and>
     connection (openai_client (bridge (snd (run handshake_ok receiver_first schedule b)))) = None \<and>
     close_calls (openai_client (bridge (snd (run handshake_ok receiver_first schedule b)))) =
       close_calls (openai_client b) +
       (if is_connected (openai_client (bridge s)) then 1 else 0) \<and>
     sent (openai_client (bridge (snd (run handshake_ok receiver_first schedule b)))) =
       sent (openai_client (bridge s)) \<and>
     sw_sent (bridge (snd (run handshake_ok receiver_first schedule b))) = sw_sent (bridge s)"
proof -
  define final where "final =
    (let s1 = s\<lparr>receiver := cancel (receiver s), forwarder := cancel (forwarder s)\<rparr>;
         s2 = s1\<lparr>bridge :=
                (bridge s1)\<lparr>openai_client := snd (close (openai_client (bridge s1)))\<rparr>\<rparr>
     in if is_connected (openai_client (bridge s1))
        then s2\<lparr>receiver := cancelled (receiver s2), forwarder := cancelled (forwarder s2)\<rparr>
        else s2)"
  have live: "started (receiver s)" "started (forwarder s)"
    unfolding s using exec_started [OF create_tasks_started] by simp_all
  from some have dn: "done_tasks receiver_first s \<noteq> []"
    by (auto simp add: done_tasks_def)
  from conn s dn have r: "run handshake_ok receiver_first schedule b =
      (Some (first_exception (done_tasks receiver_first s)), final)"
    by (simp add: run_def final_def Let_def)
  have res: "first_exception (done_tasks receiver_first s) =
       (case receiver s of
               Failed e1 \<Rightarrow>
                 (case forwarder s of
                    Failed e2 \<Rightarrow> Inl (if receiver_first then e1 else e2)
                  | t2 \<Rightarrow> Inl e1)
             | t1 \<Rightarrow> (case forwarder s of Failed e2 \<Rightarrow> Inl e2 | t2 \<Rightarrow> Inr ()))"
    using live by (cases "receiver s"; cases "forwarder s") (simp_all add: done_tasks_def)
  have rstat: "receiver final =
       (if receiver s \<noteq> Running then receiver s
        else if is_connected (openai_client (bridge s)) then Cancelled else Cancelling)"
    using live(1) by (cases "receiver s") (simp_all add: final_def cancel_def cancelled_def Let_def)
  have fstat: "forwarder final =
       (if forwarder s \<noteq> Running then forwarder s
        else if is_connected (openai_client (bridge s)) then Cancelled else Cancelling)"
    using live(2) by (cases "forwarder s") (simp_all add: final_def cancel_def cancelled_def Let_def)
  from rstat have ridle: "receiver final \<noteq> Running" by (simp split: if_splits)
  from fstat have fidle: "forwarder final \<noteq> Running" by (simp split: if_splits)
  have br: "bridge final = (bridge s)\<lparr>openai_client := snd (close (openai_client (bridge s)))\<rparr>"
    by (simp add: final_def Let_def)
  from conn have "close_calls c = close_calls (openai_client b)"
    using connect_close_calls [of handshake_ok "openai_client b"] by simp
  with s have cc: "close_calls (openai_client (bridge s)) = close_calls (openai_client b)"
    by (simp add: exec_close_calls create_tasks_def)
  have cl: "connection (snd (close (openai_client (bridge s)))) = None"
    "close_calls (snd (close (openai_client (bridge s)))) =
       close_calls (openai_client (bridge s)) +
       (if is_connected (openai_client (bridge s)) then 1 else 0)"
    "sent (snd (close (openai_client (bridge s)))) = sent (openai_client (bridge s))"
    by (simp_all add: close_def)
  from cancelled_task_is_idle(1) [OF ridle]
  have r1: "bridge (receiver_step final) = bridge final" by simp
  from cancelled_task_is_idle(2) [OF fidle]
  have f1: "bridge (forwarder_step final) = bridge final" by simp
  have "fst (run handshake_ok receiver_first schedule b) =
      Some (first_exception (done_tasks receiver_first s))"
    and fin: "snd (run handshake_ok receiver_first schedule b) = final"
    by (simp_all add: r)
  with res rstat fstat r1 f1 br cl cc show ?thesis by simp
qed

theorem run_after_wait_witness:
  "fst (run True True
     [SwArrives (Frame (Json (JObj [(''event'', JStr ''start''), (''streamId'', JStr ''s1'')]))),
      RunReceiver, SwArrives (Frame NotJson), RunReceiver]
     (new_bridge (default_config ''k''))) = Some (Inl JSONDecodeError) \<and>
   receiver (snd (run True True
     [SwArrives (Frame (Json (JObj [(''event'', JStr ''start''), (''streamId'', JStr ''s1'')]))),
      RunReceiver, SwArrives (Frame NotJson), RunReceiver]
     (new_bridge (default_config ''k'')))) = Failed JSONDecodeError \<and>
   forwarder (snd (run True True
     [SwArrives (Frame (Json (JObj [(''event'', JStr ''start''), (''streamId'', JStr ''s1'')]))),
      RunReceiver, SwArrives (Frame NotJson), RunReceiver]
     (new_bridge (default_config ''k'')))) = Cancelled \<and>
   close_calls (openai_client (bridge (snd (run True True
     [SwArrives (Frame (Json (JObj [(''event'', JStr ''start''), (''streamId'', JStr ''s1'')]))),
      RunReceiver, SwArrives (Frame NotJson), RunReceiver]
     (new_bridge (default_config ''k'')))))) = 1"
  using run_after_wait
    [of True "new_bridge (default_config ''k'')"
        "snd (connect True (openai_client (new_bridge (default_config ''k''))))"
        "exec [SwArrives (Frame (Json (JObj [(''event'', JStr ''start''), (''streamId'', JStr ''s1'')]))),
      RunReceiver, SwArrives (Frame NotJson), RunReceiver]
          (create_tasks ((new_bridge (default_config ''k''))\<lparr>accepted := True,
             openai_client := snd (connect True (openai_client (new_bridge (default_config ''k''))))\<rparr>))"
        "[SwArrives (Frame (Json (JObj [(''event'', JStr ''start''), (''streamId'', JStr ''s1'')]))),
      RunReceiver, SwArrives (Frame NotJson), RunReceiver]" True]
  by (simp add: run_unfold)

text \<open>
  C2 as stated fails in three ways. The AI connection is lost: \<^verbatim>\<open>run\<close> raises the
  forwarder's error while the cancellation of the receiver is still pending, since \<^verbatim>\<open>close\<close>
  has no connection left to close and \<^verbatim>\<open>run\<close> never awaits the task. The receiver finishes
  cleanly (a call that \<^verbatim>\<open>run\<close> would end without error) and the forwarder fails before
  \<^verbatim>\<open>asyncio.wait\<close> returns: \<^verbatim>\<open>run\<close> raises. The receiver fails first and the forwarder fails
  before \<^verbatim>\<open>asyncio.wait\<close> returns: \<^verbatim>\<open>run\<close> can raise the second error.
\<close>

theorem run_raises_early_counterexample:
  "fst (run True True
     [SwArrives (Frame (Json (JObj [(''event'', JStr ''start''), (''streamId'', JStr ''s1'')]))),
      RunReceiver, RunForwarder, AiCloses False, RunForwarder]
     (new_bridge (default_config ''k''))) = Some (Inl ConnectionClosedError) \<and>
   receiver (snd (run True True
     [SwArrives (Frame (Json (JObj [(''event'', JStr ''start''), (''streamId'', JStr ''s1'')]))),
      RunReceiver, RunForwarder, AiCloses False, RunForwarder]
     (new_bridge (default_config ''k'')))) = Cancelling \<and>
   fst (run True True
     [SwArrives (Frame (Json (JObj [(''event'', JStr ''start''), (''streamId'', JStr ''s1'')]))),
      RunReceiver, RunForwarder, SwArrives Disconnect, RunReceiver]
     (new_bridge (default_config ''k''))) = Some (Inr ()) \<and>
   fst (run True True
     [SwArrives (Frame (Json (JObj [(''event'', JStr ''start''), (''streamId'', JStr ''s1'')]))),
      RunReceiver, RunForwarder, SwArrives Disconnect, RunReceiver,
      AiCloses False, RunForwarder]
     (new_bridge (default_config ''k''))) = Some (Inl ConnectionClosedError) \<and>
   receiver (snd (run True True
     [SwArrives (Frame (Json (JObj [(''event'', JStr ''start''), (''streamId'', JStr ''s1'')]))),
      RunReceiver, RunForwarder, SwArrives Disconnect, RunReceiver,
      AiCloses False, RunForwarder]
     (new_bridge (default_config ''k'')))) = Finished \<and>
   fst (run True False
     [SwArrives (Frame (Json (JObj [(''event'', JStr ''start''), (''streamId'', JStr ''s1'')]))),
      RunReceiver, RunForwarder, SwArrives (Frame NotJson), RunReceiver,
      AiCloses False, RunForwarder]
     (new_bridge (default_config ''k''))) = Some (Inl ConnectionClosedError) \<and>
   receiver (snd (run True False
     [SwArrives (Frame (Json (JObj [(''event'', JStr ''start''), (''streamId'', JStr ''s1'')]))),
      RunReceiver, RunForwarder, SwArrives (Frame NotJson), RunReceiver,
      AiCloses False, RunForwarder]
     (new_bridge (default_config ''k'')))) = Failed JSONDecodeError"
  by (simp add: run_unfold)

end
